theory Spec2Isabelle
  imports Complex_Main "HOL-Library.Word"
begin

unbundle bit_operations_syntax

section \<open>Values, errors and panics\<close>

text \<open>
  Go's \<open>interface{}\<close> values that travel through claim sets and the request context.
  A JSON number decodes to \<open>float64\<close> (\<open>VFloat\<close>); the issuer stores \<open>int64\<close>
  (\<open>VInt\<close>). \<open>VClaims r\<close> is a \<open>MapClaims\<close> value: a reference into the store of
  maps, or the nil map. \<open>VData\<close> stands for any other application value.
  Floats are modelled as reals: NaN, infinities and rounding are outside the model.
\<close>

type_synonym ref = nat

datatype jvalue =
    VNil
  | VFloat real
  | VInt int
  | VString string
  | VBool bool
  | VClaims "ref option"
  | VData nat

type_synonym claims = "string \<rightharpoonup> jvalue"

text \<open>
  Go errors: the package-level sentinel values of the middleware, the validation
  error of the token library (inner error, text and error bits), and any other
  error, known by its message.
\<close>

datatype err =
    ErrMissingSecretKey
  | ErrForbidden
  | ErrMissingAuthenticatorFunc
  | ErrMissingLoginValues
  | ErrFailedAuthentication
  | ErrFailedTokenCreation
  | ErrExpiredToken
  | ErrEmptyAuthHeader
  | ErrMissingExpField
  | ErrWrongFormatOfExp
  | ErrInvalidAuthHeader
  | ErrEmptyQueryToken
  | ErrEmptyCookieToken
  | ErrEmptyParamToken
  | ErrEmptyPostFormToken
  | ErrInvalidSigningAlgorithm
  | ErrNoPrivKeyFile
  | ErrNoPubKeyFile
  | ErrInvalidPrivKey
  | ErrInvalidPubKey
  | ValidationError "err option" string "32 word"
  | ErrorString string

fun Error :: "err \<Rightarrow> string" where
  "Error ErrMissingSecretKey = ''secret key is required''"
| "Error ErrForbidden = ''you don't have permission to access this resource''"
| "Error ErrMissingAuthenticatorFunc = ''ginJWTMiddleware.Authenticator func is undefined''"
| "Error ErrMissingLoginValues = ''missing Username or Password''"
| "Error ErrFailedAuthentication = ''incorrect Username or Password''"
| "Error ErrFailedTokenCreation = ''failed to create JWT Token''"
| "Error ErrExpiredToken = ''token is expired''"
| "Error ErrEmptyAuthHeader = ''auth header is empty''"
| "Error ErrMissingExpField = ''missing exp field''"
| "Error ErrWrongFormatOfExp = ''exp must be float64 format''"
| "Error ErrInvalidAuthHeader = ''auth header is invalid''"
| "Error ErrEmptyQueryToken = ''query token is empty''"
| "Error ErrEmptyCookieToken = ''cookie token is empty''"
| "Error ErrEmptyParamToken = ''parameter token is empty''"
| "Error ErrEmptyPostFormToken = ''form post token is empty''"
| "Error ErrInvalidSigningAlgorithm = ''invalid signing algorithm''"
| "Error ErrNoPrivKeyFile = ''private key file unreadable''"
| "Error ErrNoPubKeyFile = ''public key file unreadable''"
| "Error ErrInvalidPrivKey = ''private key invalid''"
| "Error ErrInvalidPubKey = ''public key invalid''"
| "Error (ValidationError (Some e) txt bits) = Error e"
| "Error (ValidationError None txt bits) = (if txt \<noteq> [] then txt else ''token is invalid'')"
| "Error (ErrorString s) = s"

text \<open>The error bits of the token library's validation error (a \<open>uint32\<close>).\<close>

definition ValidationErrorMalformed :: "32 word" where
  "ValidationErrorMalformed = 1"

definition ValidationErrorUnverifiable :: "32 word" where
  "ValidationErrorUnverifiable = 2"

definition ValidationErrorSignatureInvalid :: "32 word" where
  "ValidationErrorSignatureInvalid = 4"

definition ValidationErrorExpired :: "32 word" where
  "ValidationErrorExpired = 16"

text \<open>What a Go runtime panic is in the model: a result of its own, never a typed error.\<close>

datatype panic = NilDereference | IndexOutOfRange | TypeAssertion

section \<open>Time\<close>

text \<open>
  A \<open>time.Time\<close> is its number of nanoseconds since the Unix epoch, a
  \<open>time.Duration\<close> a number of nanoseconds; both unbounded here.
\<close>

type_synonym time = int
type_synonym duration = int

definition Unix :: "time \<Rightarrow> int" where
  "Unix t = t div 1000000000"

definition Add :: "time \<Rightarrow> duration \<Rightarrow> time" where
  "Add t d = t + d"

definition Hour :: duration where
  "Hour = 3600 * 1000000000"

text \<open>
  The conversion \<open>int64(f)\<close> of a float: truncation towards zero when the truncated
  value fits into 64 bits. Beyond that range Go leaves the result to the
  implementation; the value here is the one of amd64, the least \<open>int64\<close>.
\<close>

definition MinInt64 :: int where
  "MinInt64 = - 9223372036854775808"

definition MaxInt64 :: int where
  "MaxInt64 = 9223372036854775807"

definition int64 :: "real \<Rightarrow> int" where
  "int64 f =
     (let t = (if 0 \<le> f then \<lfloor>f\<rfloor> else \<lceil>f\<rceil>)
      in if MinInt64 \<le> t \<and> t \<le> MaxInt64 then t else MinInt64)"

section \<open>Strings\<close>

text \<open>
  The functions of Go's \<open>strings\<close> package that the middleware calls, on ASCII text:
  \<open>TrimSpace\<close>, \<open>Split\<close> and \<open>SplitN\<close> with a one-character separator, \<open>HasPrefix\<close>.
\<close>

definition isSpace :: "char \<Rightarrow> bool" where
  "isSpace ch = (ch = CHR '' '' \<or> ch = CHR 0x09 \<or> ch = CHR 0x0A \<or> ch = CHR 0x0B
     \<or> ch = CHR 0x0C \<or> ch = CHR 0x0D)"

definition TrimSpace :: "string \<Rightarrow> string" where
  "TrimSpace s = rev (dropWhile isSpace (rev (dropWhile isSpace s)))"

fun Split :: "string \<Rightarrow> char \<Rightarrow> string list" where
  "Split [] sep = [[]]"
| "Split (x # xs) sep =
     (if x = sep then [] # Split xs sep
      else (case Split xs sep of [] \<Rightarrow> [[x]] | y # ys \<Rightarrow> (x # y) # ys))"

text \<open>\<open>strings.SplitN(s, sep, 2)\<close>: cut at the first separator only.\<close>

definition SplitN2 :: "string \<Rightarrow> char \<Rightarrow> string list" where
  "SplitN2 s sep =
     (case dropWhile (\<lambda>ch. ch \<noteq> sep) s of
        [] \<Rightarrow> [s]
      | _ # rest \<Rightarrow> [takeWhile (\<lambda>ch. ch \<noteq> sep) s, rest])"

fun HasPrefix :: "string \<Rightarrow> string \<Rightarrow> bool" where
  "HasPrefix s [] = True"
| "HasPrefix [] (p # ps) = False"
| "HasPrefix (x # xs) (p # ps) = (x = p \<and> HasPrefix xs ps)"

section \<open>The request context\<close>

text \<open>
  A response cookie, as \<open>SetCookie\<close> receives it, with the same-site mode of the
  context at that moment.
\<close>

record cookie =
  ckName :: string
  ckValue :: string
  ckMaxAge :: int
  ckPath :: string
  ckDomain :: string
  ckSecure :: bool
  ckHTTPOnly :: bool
  ckSameSite :: int

text \<open>
  The state one request handler works on: the request as \<open>gin.Context\<close> exposes it
  (a missing header, query parameter, cookie, path parameter or form field reads as the
  empty string; a header is read under the name as it is given), the keys set on the
  context, the response so far, whether the context
  is aborted, how often the next handler was run; the store of claim maps (\<open>heap\<close>, with
  \<open>hp\<close> the next fresh reference) and the number of clock readings taken so far.
\<close>

record state =
  reqHeader :: "string \<Rightarrow> string"
  reqQuery :: "string \<Rightarrow> string"
  reqCookie :: "string \<Rightarrow> string"
  reqParam :: "string \<Rightarrow> string"
  reqPostForm :: "string \<Rightarrow> string"
  reqPath :: string
  Keys :: "string \<rightharpoonup> jvalue"
  respHeader :: "string \<rightharpoonup> string"
  respCookies :: "cookie list"
  sameSite :: int
  aborted :: bool
  written :: "(int \<times> (string \<times> jvalue) list) list"
  nexts :: nat
  heap :: "ref \<Rightarrow> claims"
  hp :: ref
  ticks :: nat

definition Set :: "string \<Rightarrow> jvalue \<Rightarrow> state \<Rightarrow> state" where
  "Set k v c = c\<lparr>Keys := (Keys c)(k \<mapsto> v)\<rparr>"

definition Header :: "string \<Rightarrow> string \<Rightarrow> state \<Rightarrow> state" where
  "Header k v c =
     (if v = [] then c\<lparr>respHeader := (respHeader c)(k := None)\<rparr>
      else c\<lparr>respHeader := (respHeader c)(k \<mapsto> v)\<rparr>)"

definition Abort :: "state \<Rightarrow> state" where
  "Abort c = c\<lparr>aborted := True\<rparr>"

definition Next :: "state \<Rightarrow> state" where
  "Next c = c\<lparr>nexts := Suc (nexts c)\<rparr>"

definition JSON :: "int \<Rightarrow> (string \<times> jvalue) list \<Rightarrow> state \<Rightarrow> state" where
  "JSON code obj c = c\<lparr>written := written c @ [(code, obj)]\<rparr>"

definition SetSameSite :: "int \<Rightarrow> state \<Rightarrow> state" where
  "SetSameSite m c = c\<lparr>sameSite := m\<rparr>"

definition SetCookie ::
  "string \<Rightarrow> string \<Rightarrow> int \<Rightarrow> string \<Rightarrow> string \<Rightarrow> bool \<Rightarrow> bool \<Rightarrow> state \<Rightarrow> state" where
  "SetCookie name val maxAge path domain secure httpOnly c =
     c\<lparr>respCookies := respCookies c @
        [\<lparr>ckName = name, ckValue = val, ckMaxAge = maxAge, ckPath = path,
          ckDomain = domain, ckSecure = secure, ckHTTPOnly = httpOnly,
          ckSameSite = sameSite c\<rparr>]\<rparr>"

text \<open>\<open>MapClaims{}\<close>, \<open>make(MapClaims)\<close>: a fresh empty map in the store.\<close>

definition newMap :: "state \<Rightarrow> ref \<times> state" where
  "newMap c = (hp c, c\<lparr>heap := (heap c)(hp c := Map.empty), hp := Suc (hp c)\<rparr>)"

text \<open>Reading \<open>m[k]\<close>: nil for a missing key, and for every key of the nil map.\<close>

definition mapGet :: "state \<Rightarrow> ref option \<Rightarrow> string \<Rightarrow> jvalue" where
  "mapGet c m k =
     (case m of
        None \<Rightarrow> VNil
      | Some r \<Rightarrow> (case heap c r k of None \<Rightarrow> VNil | Some v \<Rightarrow> v))"

section \<open>Tokens and keys\<close>

datatype key =
    HMACKey "string option"
  | RSAPublicKey "nat option"
  | RSAPrivateKey "nat option"
  | OtherKey nat

text \<open>
  A token of the library: the signing method (its algorithm name, or nil), the
  reference of its claim map, the raw text and the \<open>Valid\<close> flag.
\<close>

record token =
  Raw :: string
  Method :: "string option"
  Claims :: ref
  Valid :: bool

text \<open>The signing methods the token library registers, by name.\<close>

definition signingMethods :: "string list" where
  "signingMethods =
     [''HS256'', ''HS384'', ''HS512'', ''RS256'', ''RS384'', ''RS512'',
      ''ES256'', ''ES384'', ''ES512'', ''PS256'', ''PS384'', ''PS512'',
      ''EdDSA'', ''none'']"

definition GetSigningMethod :: "string \<Rightarrow> string option" where
  "GetSigningMethod alg = (if alg \<in> set signingMethods then Some alg else None)"

section \<open>The middleware configuration\<close>

text \<open>
  The struct \<open>GinJWTMiddleware\<close>. A nil function, slice or key pointer is \<open>None\<close>;
  calling a nil function panics. The callbacks \<open>KeyFunc\<close>, \<open>Authenticator\<close>,
  \<open>Authorizator\<close>, \<open>PayloadFunc\<close> and \<open>HTTPStatusMessageFunc\<close> read what they are
  given; the responders change the state; the identity handler returns a value and a
  state, or panics, as the default one does that \<open>MiddlewareInit\<close> installs.
  \<open>TimeFunc\<close> maps the number of clock readings taken so far to the time it returns
  next, so two calls need not agree.
\<close>

record GinJWTMiddleware =
  Realm :: string
  SigningAlgorithm :: string
  Key :: "string option"
  KeyFunc :: "(token \<Rightarrow> err + key) option"
  Timeout :: duration
  MaxRefresh :: duration
  Authenticator :: "(state \<Rightarrow> err + jvalue) option"
  Authorizator :: "(jvalue \<Rightarrow> state \<Rightarrow> bool) option"
  PayloadFunc :: "(jvalue \<Rightarrow> claims option) option"
  Unauthorized :: "(int \<Rightarrow> string \<Rightarrow> state \<Rightarrow> state) option"
  LoginResponse :: "(int \<Rightarrow> string \<Rightarrow> time \<Rightarrow> state \<Rightarrow> state) option"
  LogoutResponse :: "(int \<Rightarrow> state \<Rightarrow> state) option"
  RefreshResponse :: "(int \<Rightarrow> string \<Rightarrow> time \<Rightarrow> state \<Rightarrow> state) option"
  IdentityHandler :: "(state \<Rightarrow> panic + jvalue \<times> state) option"
  IdentityKey :: string
  TokenLookup :: string
  TokenHeadName :: string
  TimeFunc :: "(nat \<Rightarrow> time) option"
  HTTPStatusMessageFunc :: "(err \<Rightarrow> state \<Rightarrow> string) option"
  PrivKeyFile :: string
  PrivKeyBytes :: "string option"
  PubKeyFile :: string
  PrivateKeyPassphrase :: string
  PubKeyBytes :: "string option"
  privKey :: "nat option"
  pubKey :: "nat option"
  SendCookie :: bool
  CookieMaxAge :: duration
  SecureCookie :: bool
  CookieHTTPOnly :: bool
  CookieDomain :: string
  SendAuthorization :: bool
  DisabledAbort :: bool
  CookieName :: string
  CookieSameSite :: int
  FilteredURL :: string

section \<open>The credential locator\<close>

definition jwtFromHeader :: "GinJWTMiddleware \<Rightarrow> state \<Rightarrow> string \<Rightarrow> string \<times> err option" where
  "jwtFromHeader mw c k =
     (let authHeader = reqHeader c k in
      if authHeader = [] then ([], Some ErrEmptyAuthHeader)
      else
        (let parts = SplitN2 authHeader (CHR '' '') in
         if \<not> (length parts = 2 \<and> parts ! 0 = TokenHeadName mw)
         then ([], Some ErrInvalidAuthHeader)
         else (parts ! 1, None)))"

definition jwtFromQuery :: "GinJWTMiddleware \<Rightarrow> state \<Rightarrow> string \<Rightarrow> string \<times> err option" where
  "jwtFromQuery mw c k =
     (let tok = reqQuery c k in
      if tok = [] then ([], Some ErrEmptyQueryToken) else (tok, None))"

definition jwtFromCookie :: "GinJWTMiddleware \<Rightarrow> state \<Rightarrow> string \<Rightarrow> string \<times> err option" where
  "jwtFromCookie mw c k =
     (let ck = reqCookie c k in
      if ck = [] then ([], Some ErrEmptyCookieToken) else (ck, None))"

definition jwtFromParam :: "GinJWTMiddleware \<Rightarrow> state \<Rightarrow> string \<Rightarrow> string \<times> err option" where
  "jwtFromParam mw c k =
     (let tok = reqParam c k in
      if tok = [] then ([], Some ErrEmptyParamToken) else (tok, None))"

definition jwtFromPostForm :: "GinJWTMiddleware \<Rightarrow> state \<Rightarrow> string \<Rightarrow> string \<times> err option" where
  "jwtFromPostForm mw c k =
     (let tok = reqPostForm c k in
      if tok = [] then ([], Some ErrEmptyPostFormToken) else (tok, None))"

text \<open>
  The loop of \<open>ParseToken\<close> over the lookup methods: it stops once a token is found;
  a method without a colon makes \<open>parts[1]\<close> panic; an unknown source kind leaves
  token and error as they are.
\<close>

fun lookupLoop ::
  "GinJWTMiddleware \<Rightarrow> state \<Rightarrow> string list \<Rightarrow> string \<times> err option
    \<Rightarrow> panic + string \<times> err option" where
  "lookupLoop mw c [] te = Inr te"
| "lookupLoop mw c (method # methods) te =
     (if length (fst te) > 0 then Inr te
      else
        (let parts = Split (TrimSpace method) (CHR '':'') in
         if length parts < 2 then Inl IndexOutOfRange
         else
           (let k = TrimSpace (parts ! 0); v = TrimSpace (parts ! 1) in
            lookupLoop mw c methods
              (if k = ''header'' then jwtFromHeader mw c v
               else if k = ''query'' then jwtFromQuery mw c v
               else if k = ''cookie'' then jwtFromCookie mw c v
               else if k = ''param'' then jwtFromParam mw c v
               else if k = ''postform'' then jwtFromPostForm mw c v
               else te))))"

section \<open>The token library and the operating system\<close>

text \<open>
  What the middleware calls outside this package, as parameters: the token library's
  decoding of the three segments of a token (\<open>Inl\<close> the message of a malformed one,
  \<open>Inr\<close> the \<open>alg\<close> header, if it is a string, and the claims), its validation of the
  registered claims, the verification of a token's signature under a key and the
  signing of a token with given claims; reading a file and parsing
  PEM keys; the system clock (by the number of readings so far) and the RFC 3339
  format of a time.
\<close>

record env =
  decodeSegments :: "string \<Rightarrow> string + string option \<times> claims"
  claimsValid :: "claims \<Rightarrow> err option"
  verify :: "token \<Rightarrow> key \<Rightarrow> err option"
  signClaims :: "token \<Rightarrow> claims \<Rightarrow> key \<Rightarrow> err + string"
  readFile :: "string \<Rightarrow> string option"
  parseRSAPrivateKeyFromPEM :: "string option \<Rightarrow> nat option"
  parseRSAPrivateKeyFromPEMWithPassword :: "string option \<Rightarrow> string \<Rightarrow> nat option"
  parseRSAPublicKeyFromPEM :: "string option \<Rightarrow> nat option"
  timeNow :: "nat \<Rightarrow> time"
  formatRFC3339 :: "time \<Rightarrow> string"

text \<open>
  The control flow of the library's \<open>Parse\<close> (version 4 of golang-jwt), around those
  parameters. \<open>ParseUnverified\<close> decodes the token and looks its signing method up;
  beside a malformed-token error the token is not read by any caller here and is
  left nil. \<open>Parse\<close> then asks the key function for the key (an error of the key
  function that is no validation error is wrapped into one, as unverifiable),
  validates the claims, verifies the signature, and returns the token with the
  collected validation error, if any bit is set. The token is not nil beside an error
  of the last three steps.
\<close>

definition ValidationErrorClaimsInvalid :: "32 word" where
  "ValidationErrorClaimsInvalid = 512"

definition ParseUnverified ::
  "env \<Rightarrow> string \<Rightarrow> state \<Rightarrow> (token option \<times> err option) \<times> state" where
  "ParseUnverified E s c =
     (case decodeSegments E s of
        Inl msg \<Rightarrow> ((None, Some (ValidationError None msg ValidationErrorMalformed)), c)
      | Inr (alg, cl) \<Rightarrow>
          (let (r, c1) = newMap c;
               c2 = c1\<lparr>heap := (heap c1)(r := cl)\<rparr>;
               tok = \<lparr>Raw = s, Method = None, Claims = r, Valid = False\<rparr>
           in case alg of
                None \<Rightarrow>
                  ((Some tok, Some (ValidationError None
                      ''signing method (alg) is unspecified.'' ValidationErrorUnverifiable)), c2)
              | Some a \<Rightarrow>
                  (case GetSigningMethod a of
                     None \<Rightarrow>
                       ((Some tok, Some (ValidationError None
                           ''signing method (alg) is unavailable.'' ValidationErrorUnverifiable)), c2)
                   | Some m \<Rightarrow> ((Some (tok\<lparr>Method := Some m\<rparr>), None), c2))))"

definition wrapKeyFuncError :: "err \<Rightarrow> err" where
  "wrapKeyFuncError e =
     (case e of
        ValidationError i t b \<Rightarrow> e
      | _ \<Rightarrow> ValidationError (Some e) [] ValidationErrorUnverifiable)"

definition claimsError :: "env \<Rightarrow> claims \<Rightarrow> err option \<times> string \<times> 32 word" where
  "claimsError E cl =
     (case claimsValid E cl of
        None \<Rightarrow> (None, [], 0)
      | Some (ValidationError i t b) \<Rightarrow> (i, t, b)
      | Some e \<Rightarrow> (Some e, [], ValidationErrorClaimsInvalid))"

definition jwt_Parse ::
  "env \<Rightarrow> string \<Rightarrow> (token \<Rightarrow> state \<Rightarrow> (err + key) \<times> state) \<Rightarrow> state
    \<Rightarrow> (token option \<times> err option) \<times> state" where
  "jwt_Parse E s keyFunc c =
     (case ParseUnverified E s c of
        ((tok, Some e), c1) \<Rightarrow> ((tok, Some e), c1)
      | ((None, None), c1) \<Rightarrow> ((None, None), c1)
      | ((Some tok, None), c1) \<Rightarrow>
          (case keyFunc tok c1 of
             (Inl e, c2) \<Rightarrow> ((Some tok, Some (wrapKeyFuncError e)), c2)
           | (Inr k, c2) \<Rightarrow>
               (let (i, t, b) = claimsError E (heap c2 (Claims tok));
                    (i', b') =
                      (case verify E tok k of
                         Some e \<Rightarrow> (Some e, b OR ValidationErrorSignatureInvalid)
                       | None \<Rightarrow> (i, b))
                in if b' = 0 then ((Some (tok\<lparr>Valid := True\<rparr>), None), c2)
                   else ((Some tok, Some (ValidationError i' t b')), c2))))"

definition jwt_New :: "string option \<Rightarrow> state \<Rightarrow> panic + token \<times> state" where
  "jwt_New m c =
     (case m of
        None \<Rightarrow> Inl NilDereference
      | Some a \<Rightarrow>
          (let (r, c1) = newMap c
           in Inr (\<lparr>Raw = [], Method = Some a, Claims = r, Valid = False\<rparr>, c1)))"

section \<open>Locating and verifying the token of a request\<close>

definition usingPublicKeyAlgo :: "GinJWTMiddleware \<Rightarrow> bool" where
  "usingPublicKeyAlgo mw =
     (SigningAlgorithm mw = ''RS256'' \<or> SigningAlgorithm mw = ''RS512''
      \<or> SigningAlgorithm mw = ''RS384'')"

text \<open>The key function \<open>ParseToken\<close> passes to the library when no \<open>KeyFunc\<close> is set.\<close>

definition defaultKeyFunc ::
  "GinJWTMiddleware \<Rightarrow> string \<Rightarrow> token \<Rightarrow> state \<Rightarrow> (err + key) \<times> state" where
  "defaultKeyFunc mw tokenStr t c =
     (if GetSigningMethod (SigningAlgorithm mw) \<noteq> Method t
      then (Inl ErrInvalidSigningAlgorithm, c)
      else if usingPublicKeyAlgo mw then (Inr (RSAPublicKey (pubKey mw)), c)
      else (Inr (HMACKey (Key mw)), Set ''JWT_TOKEN'' (VString tokenStr) c))"

definition ParseToken ::
  "env \<Rightarrow> GinJWTMiddleware \<Rightarrow> state \<Rightarrow> panic + (token option \<times> err option) \<times> state" where
  "ParseToken E mw c =
     (case lookupLoop mw c (Split (TokenLookup mw) (CHR '','')) ([], None) of
        Inl p \<Rightarrow> Inl p
      | Inr (tokenStr, Some e) \<Rightarrow> Inr ((None, Some e), c)
      | Inr (tokenStr, None) \<Rightarrow>
          (case KeyFunc mw of
             Some kf \<Rightarrow> Inr (jwt_Parse E tokenStr (\<lambda>t c'. (kf t, c')) c)
           | None \<Rightarrow> Inr (jwt_Parse E tokenStr (defaultKeyFunc mw tokenStr) c)))"

definition GetClaimsFromJWT ::
  "env \<Rightarrow> GinJWTMiddleware \<Rightarrow> state \<Rightarrow> panic + (ref option \<times> err option) \<times> state" where
  "GetClaimsFromJWT E mw c =
     (case ParseToken E mw c of
        Inl p \<Rightarrow> Inl p
      | Inr ((tok, Some e), c1) \<Rightarrow> Inr ((None, Some e), c1)
      | Inr ((None, None), c1) \<Rightarrow> Inl NilDereference
      | Inr ((Some tok, None), c1) \<Rightarrow>
          (case (if SendAuthorization mw
                 then (case Keys c1 ''JWT_TOKEN'' of
                         None \<Rightarrow> Inr c1
                       | Some (VString v) \<Rightarrow>
                           Inr (Header ''Authorization'' (TokenHeadName mw @ '' '' @ v) c1)
                       | Some _ \<Rightarrow> Inl TypeAssertion)
                 else Inr c1) of
             Inl p \<Rightarrow> Inl p
           | Inr c2 \<Rightarrow>
               (let (r, c3) = newMap c2
                in Inr ((Some r, None),
                        c3\<lparr>heap := (heap c3)(r := heap c3 r ++ heap c3 (Claims tok))\<rparr>))))"

section \<open>The middleware\<close>

definition unauthorized :: "GinJWTMiddleware \<Rightarrow> state \<Rightarrow> int \<Rightarrow> string \<Rightarrow> panic + state" where
  "unauthorized mw c code message =
     (let c1 = Header ''WWW-Authenticate'' (''JWT realm='' @ Realm mw) c;
          c2 = (if \<not> DisabledAbort mw then Abort c1 else c1)
      in case Unauthorized mw of
           None \<Rightarrow> Inl NilDereference
         | Some u \<Rightarrow> Inr (u code message c2))"

text \<open>The call \<open>mw.unauthorized(c, code, mw.HTTPStatusMessageFunc(e, c))\<close>.\<close>

definition unauthorizedErr :: "GinJWTMiddleware \<Rightarrow> state \<Rightarrow> int \<Rightarrow> err \<Rightarrow> panic + state" where
  "unauthorizedErr mw c code e =
     (case HTTPStatusMessageFunc mw of
        None \<Rightarrow> Inl NilDereference
      | Some h \<Rightarrow> unauthorized mw c code (h e c))"

definition callTimeFunc :: "GinJWTMiddleware \<Rightarrow> state \<Rightarrow> panic + time \<times> state" where
  "callTimeFunc mw c =
     (case TimeFunc mw of
        None \<Rightarrow> Inl NilDereference
      | Some tf \<Rightarrow> Inr (tf (ticks c), c\<lparr>ticks := Suc (ticks c)\<rparr>))"

text \<open>The loop of \<open>middlewareImpl\<close> over the exempt path prefixes.\<close>

fun filteredLoop :: "string \<Rightarrow> string list \<Rightarrow> bool" where
  "filteredLoop path [] = False"
| "filteredLoop path (u # us) =
     (if HasPrefix path (TrimSpace u) then True else filteredLoop path us)"

text \<open>
  \<open>middlewareImpl\<close>, cut at its early returns, last part first: publishing the claims
  and the identity and asking the \<open>Authorizator\<close>; the expiry check; the check that
  \<open>exp\<close> is a \<open>float64\<close>; the check that \<open>exp\<close> is there; the branch on the error.
\<close>

definition publishAndAuthorize ::
  "GinJWTMiddleware \<Rightarrow> bool \<Rightarrow> ref option \<Rightarrow> state \<Rightarrow> panic + state" where
  "publishAndAuthorize mw flag cl c =
     (let c1 = Set ''JWT_PAYLOAD'' (VClaims cl) c
      in case IdentityHandler mw of
           None \<Rightarrow> Inl NilDereference
         | Some ih \<Rightarrow>
             (case ih c1 of
                Inl p \<Rightarrow> Inl p
              | Inr (identity, c2) \<Rightarrow>
                  (let c3 = (if identity \<noteq> VNil then Set (IdentityKey mw) identity c2 else c2)
                   in case Authorizator mw of
                        None \<Rightarrow> Inl NilDereference
                      | Some az \<Rightarrow>
                          (if \<not> az identity c3
                           then (if \<not> flag then unauthorizedErr mw c3 403 ErrForbidden
                                 else Inr (Next c3))
                           else Inr (Next c3)))))"

definition checkExpired ::
  "GinJWTMiddleware \<Rightarrow> bool \<Rightarrow> ref option \<Rightarrow> state \<Rightarrow> panic + state" where
  "checkExpired mw flag cl c =
     (if mapGet c cl ''exp'' \<noteq> VNil
      then (case mapGet c cl ''exp'' of
              VFloat f \<Rightarrow>
                (case callTimeFunc mw c of
                   Inl p \<Rightarrow> Inl p
                 | Inr (now, c1) \<Rightarrow>
                     (if int64 f < Unix now then unauthorizedErr mw c1 401 ErrExpiredToken
                      else publishAndAuthorize mw flag cl c1))
            | _ \<Rightarrow> Inl TypeAssertion)
      else publishAndAuthorize mw flag cl c)"

definition checkExpFormat ::
  "GinJWTMiddleware \<Rightarrow> bool \<Rightarrow> ref option \<Rightarrow> state \<Rightarrow> panic + state" where
  "checkExpFormat mw flag cl c =
     (if \<not> (case mapGet c cl ''exp'' of VFloat f \<Rightarrow> True | _ \<Rightarrow> False)
      then (if \<not> flag then unauthorizedErr mw c 400 ErrWrongFormatOfExp
            else checkExpired mw flag cl c)
      else checkExpired mw flag cl c)"

definition checkExpPresent ::
  "GinJWTMiddleware \<Rightarrow> bool \<Rightarrow> ref option \<Rightarrow> state \<Rightarrow> panic + state" where
  "checkExpPresent mw flag cl c =
     (if mapGet c cl ''exp'' = VNil
      then (if \<not> flag then unauthorizedErr mw c 400 ErrMissingExpField
            else checkExpFormat mw flag cl c)
      else checkExpFormat mw flag cl c)"

definition middlewareImpl :: "env \<Rightarrow> GinJWTMiddleware \<Rightarrow> state \<Rightarrow> panic + state" where
  "middlewareImpl E mw c =
     (case GetClaimsFromJWT E mw c of
        Inl p \<Rightarrow> Inl p
      | Inr ((cl, er), c1) \<Rightarrow>
          (let flag = filteredLoop (reqPath c1) (Split (FilteredURL mw) (CHR '','')) in
           case er of
             Some e \<Rightarrow>
               (if Error e \<noteq> ''form post token is empty''
                then unauthorizedErr mw c1 401 e
                else if \<not> flag then unauthorizedErr mw c1 401 e
                else checkExpPresent mw flag cl c1)
           | None \<Rightarrow> checkExpPresent mw flag cl c1))"

section \<open>Initialization\<close>

text \<open>The package variable \<open>IdentityKey\<close>, the default identity key.\<close>

definition IdentityKey_var :: string where
  "IdentityKey_var = ''identity''"

definition ExtractClaims :: "state \<Rightarrow> panic + ref option \<times> state" where
  "ExtractClaims c =
     (case Keys c ''JWT_PAYLOAD'' of
        None \<Rightarrow> (let (r, c1) = newMap c in Inr (Some r, c1))
      | Some (VClaims m) \<Rightarrow> Inr (m, c)
      | Some _ \<Rightarrow> Inl TypeAssertion)"

text \<open>
  The identity handler that \<open>MiddlewareInit\<close> installs when none is set: the claim
  under the identity key (the key the configuration holds when it is installed), out of
  the claims published on the context.
\<close>

definition defaultIdentityHandler :: "string \<Rightarrow> state \<Rightarrow> panic + jvalue \<times> state" where
  "defaultIdentityHandler idKey c =
     (case ExtractClaims c of
        Inl p \<Rightarrow> Inl p
      | Inr (m, c1) \<Rightarrow> Inr (mapGet c1 m idKey, c1))"

definition privateKey :: "env \<Rightarrow> GinJWTMiddleware \<Rightarrow> GinJWTMiddleware \<times> err option" where
  "privateKey E mw =
     (case (if PrivKeyFile mw = [] then Inr (PrivKeyBytes mw)
            else (case readFile E (PrivKeyFile mw) of
                    None \<Rightarrow> Inl ErrNoPrivKeyFile
                  | Some filecontent \<Rightarrow> Inr (Some filecontent))) of
        Inl e \<Rightarrow> (mw, Some e)
      | Inr keyData \<Rightarrow>
          (if PrivateKeyPassphrase mw \<noteq> []
           then (case parseRSAPrivateKeyFromPEMWithPassword E keyData (PrivateKeyPassphrase mw) of
                   None \<Rightarrow> (mw, Some ErrInvalidPrivKey)
                 | Some k \<Rightarrow> (mw\<lparr>privKey := Some k\<rparr>, None))
           else (case parseRSAPrivateKeyFromPEM E keyData of
                   None \<Rightarrow> (mw, Some ErrInvalidPrivKey)
                 | Some k \<Rightarrow> (mw\<lparr>privKey := Some k\<rparr>, None))))"

definition publicKey :: "env \<Rightarrow> GinJWTMiddleware \<Rightarrow> GinJWTMiddleware \<times> err option" where
  "publicKey E mw =
     (case (if PubKeyFile mw = [] then Inr (PubKeyBytes mw)
            else (case readFile E (PubKeyFile mw) of
                    None \<Rightarrow> Inl ErrNoPubKeyFile
                  | Some filecontent \<Rightarrow> Inr (Some filecontent))) of
        Inl e \<Rightarrow> (mw, Some e)
      | Inr keyData \<Rightarrow>
          (case parseRSAPublicKeyFromPEM E keyData of
             None \<Rightarrow> (mw, Some ErrInvalidPubKey)
           | Some k \<Rightarrow> (mw\<lparr>pubKey := Some k\<rparr>, None)))"

definition readKeys :: "env \<Rightarrow> GinJWTMiddleware \<Rightarrow> GinJWTMiddleware \<times> err option" where
  "readKeys E mw =
     (case privateKey E mw of
        (mw1, Some e) \<Rightarrow> (mw1, Some e)
      | (mw1, None) \<Rightarrow>
          (case publicKey E mw1 of
             (mw2, Some e) \<Rightarrow> (mw2, Some e)
           | (mw2, None) \<Rightarrow> (mw2, None)))"

text \<open>
  \<open>MiddlewareInit\<close> fills the defaults in, field by field in the order of the source
  (each step below is one or two of its \<open>if\<close> blocks; \<open>initDefaults\<close> runs them in
  order), and then checks the key material. It returns the configuration as it has
  left it, and the error.
\<close>

definition defaultLookup :: "GinJWTMiddleware \<Rightarrow> GinJWTMiddleware" where
  "defaultLookup mw =
     (let mw1 = (if TokenLookup mw = [] then mw\<lparr>TokenLookup := ''header:Authorization''\<rparr> else mw)
      in if FilteredURL mw1 = [] then mw1\<lparr>FilteredURL := ''/douyin/test''\<rparr> else mw1)"

definition defaultAlgorithm :: "GinJWTMiddleware \<Rightarrow> GinJWTMiddleware" where
  "defaultAlgorithm mw =
     (if SigningAlgorithm mw = [] then mw\<lparr>SigningAlgorithm := ''HS256''\<rparr> else mw)"

definition defaultTime :: "env \<Rightarrow> GinJWTMiddleware \<Rightarrow> GinJWTMiddleware" where
  "defaultTime E mw =
     (let mw1 = (if Timeout mw = 0 then mw\<lparr>Timeout := Hour\<rparr> else mw)
      in if TimeFunc mw1 = None then mw1\<lparr>TimeFunc := Some (timeNow E)\<rparr> else mw1)"

definition defaultHeadName :: "GinJWTMiddleware \<Rightarrow> GinJWTMiddleware" where
  "defaultHeadName mw =
     (let mw1 = mw\<lparr>TokenHeadName := TrimSpace (TokenHeadName mw)\<rparr>
      in if length (TokenHeadName mw1) = 0 then mw1\<lparr>TokenHeadName := ''Bearer''\<rparr> else mw1)"

definition defaultAuthorizator :: "GinJWTMiddleware \<Rightarrow> GinJWTMiddleware" where
  "defaultAuthorizator mw =
     (if Authorizator mw = None then mw\<lparr>Authorizator := Some (\<lambda>data c. True)\<rparr> else mw)"

definition defaultUnauthorized :: "GinJWTMiddleware \<Rightarrow> GinJWTMiddleware" where
  "defaultUnauthorized mw =
     (if Unauthorized mw = None
      then mw\<lparr>Unauthorized := Some (\<lambda>code message.
              JSON code [(''code'', VInt code), (''message'', VString message)])\<rparr>
      else mw)"

definition defaultLoginResponse :: "env \<Rightarrow> GinJWTMiddleware \<Rightarrow> GinJWTMiddleware" where
  "defaultLoginResponse E mw =
     (if LoginResponse mw = None
      then mw\<lparr>LoginResponse := Some (\<lambda>code tok expire.
              JSON 200 [(''code'', VInt 200), (''token'', VString tok),
                        (''expire'', VString (formatRFC3339 E expire))])\<rparr>
      else mw)"

definition defaultLogoutResponse :: "GinJWTMiddleware \<Rightarrow> GinJWTMiddleware" where
  "defaultLogoutResponse mw =
     (if LogoutResponse mw = None
      then mw\<lparr>LogoutResponse := Some (\<lambda>code. JSON 200 [(''code'', VInt 200)])\<rparr>
      else mw)"

definition defaultRefreshResponse :: "env \<Rightarrow> GinJWTMiddleware \<Rightarrow> GinJWTMiddleware" where
  "defaultRefreshResponse E mw =
     (if RefreshResponse mw = None
      then mw\<lparr>RefreshResponse := Some (\<lambda>code tok expire.
              JSON 200 [(''code'', VInt 200), (''token'', VString tok),
                        (''expire'', VString (formatRFC3339 E expire))])\<rparr>
      else mw)"

definition defaultIdentity :: "GinJWTMiddleware \<Rightarrow> GinJWTMiddleware" where
  "defaultIdentity mw =
     (let mw1 = (if IdentityKey mw = [] then mw\<lparr>IdentityKey := IdentityKey_var\<rparr> else mw)
      in if IdentityHandler mw1 = None
         then mw1\<lparr>IdentityHandler := Some (defaultIdentityHandler (IdentityKey mw1))\<rparr>
         else mw1)"

definition defaultStatusMessage :: "GinJWTMiddleware \<Rightarrow> GinJWTMiddleware" where
  "defaultStatusMessage mw =
     (if HTTPStatusMessageFunc mw = None
      then mw\<lparr>HTTPStatusMessageFunc := Some (\<lambda>e c. Error e)\<rparr> else mw)"

definition defaultRealm :: "GinJWTMiddleware \<Rightarrow> GinJWTMiddleware" where
  "defaultRealm mw = (if Realm mw = [] then mw\<lparr>Realm := ''gin jwt''\<rparr> else mw)"

definition defaultCookie :: "GinJWTMiddleware \<Rightarrow> GinJWTMiddleware" where
  "defaultCookie mw =
     (let mw1 = (if CookieMaxAge mw = 0 then mw\<lparr>CookieMaxAge := Timeout mw\<rparr> else mw)
      in if CookieName mw1 = [] then mw1\<lparr>CookieName := ''jwt''\<rparr> else mw1)"

definition initDefaults :: "env \<Rightarrow> GinJWTMiddleware \<Rightarrow> GinJWTMiddleware" where
  "initDefaults E mw =
     defaultCookie (defaultRealm (defaultStatusMessage (defaultIdentity
       (defaultRefreshResponse E (defaultLogoutResponse (defaultLoginResponse E
         (defaultUnauthorized (defaultAuthorizator (defaultHeadName
           (defaultTime E (defaultAlgorithm (defaultLookup mw))))))))))))"

definition MiddlewareInit :: "env \<Rightarrow> GinJWTMiddleware \<Rightarrow> GinJWTMiddleware \<times> err option" where
  "MiddlewareInit E mw0 =
     (let mw = initDefaults E mw0 in
      if KeyFunc mw \<noteq> None then (mw, None)
      else if usingPublicKeyAlgo mw then readKeys E mw
      else if Key mw = None then (mw, Some ErrMissingSecretKey)
      else (mw, None))"

text \<open>\<open>New\<close>: the initialized middleware, or the error of the initialization.\<close>

definition New :: "env \<Rightarrow> GinJWTMiddleware \<Rightarrow> err + GinJWTMiddleware" where
  "New E m = (case MiddlewareInit E m of (mw, Some e) \<Rightarrow> Inl e | (mw, None) \<Rightarrow> Inr mw)"

section \<open>Login and refresh\<close>

definition mapSet :: "ref \<Rightarrow> string \<Rightarrow> jvalue \<Rightarrow> state \<Rightarrow> state" where
  "mapSet r k v c = c\<lparr>heap := (heap c)(r := (heap c r)(k \<mapsto> v))\<rparr>"

text \<open>Copying every entry of a map value into the map at \<open>r\<close>; the nil map has none.\<close>

definition mapCopyInto :: "ref \<Rightarrow> claims option \<Rightarrow> state \<Rightarrow> state" where
  "mapCopyInto r src c =
     (case src of
        None \<Rightarrow> c
      | Some m \<Rightarrow> c\<lparr>heap := (heap c)(r := heap c r ++ m)\<rparr>)"

definition time_Now :: "env \<Rightarrow> state \<Rightarrow> time \<times> state" where
  "time_Now E c = (timeNow E (ticks c), c\<lparr>ticks := Suc (ticks c)\<rparr>)"

definition signedString :: "env \<Rightarrow> GinJWTMiddleware \<Rightarrow> token \<Rightarrow> state \<Rightarrow> err + string" where
  "signedString E mw tok c =
     (if usingPublicKeyAlgo mw
      then signClaims E tok (heap c (Claims tok)) (RSAPrivateKey (privKey mw))
      else signClaims E tok (heap c (Claims tok)) (HMACKey (Key mw)))"

text \<open>The cookie block of \<open>LoginHandler\<close>: both clock readings are of \<open>TimeFunc\<close>.\<close>

definition loginCookie :: "GinJWTMiddleware \<Rightarrow> string \<Rightarrow> state \<Rightarrow> panic + state" where
  "loginCookie mw tokenString c =
     (if SendCookie mw
      then (case callTimeFunc mw c of
              Inl p \<Rightarrow> Inl p
            | Inr (t1, c1) \<Rightarrow>
                (case callTimeFunc mw c1 of
                   Inl p \<Rightarrow> Inl p
                 | Inr (t2, c2) \<Rightarrow>
                     (let expireCookie = Add t1 (CookieMaxAge mw);
                          maxage = Unix expireCookie - Unix t2;
                          c3 = (if CookieSameSite mw \<noteq> 0 then SetSameSite (CookieSameSite mw) c2
                                else c2)
                      in Inr (SetCookie (CookieName mw) tokenString maxage ''/''
                                (CookieDomain mw) (SecureCookie mw) (CookieHTTPOnly mw) c3))))
      else Inr c)"

definition LoginHandler :: "env \<Rightarrow> GinJWTMiddleware \<Rightarrow> state \<Rightarrow> panic + state" where
  "LoginHandler E mw c =
     (case Authenticator mw of
        None \<Rightarrow> unauthorizedErr mw c 500 ErrMissingAuthenticatorFunc
      | Some authenticator \<Rightarrow>
          (case authenticator c of
             Inl e \<Rightarrow> unauthorizedErr mw c 401 e
           | Inr data \<Rightarrow>
               (case jwt_New (GetSigningMethod (SigningAlgorithm mw)) c of
                  Inl p \<Rightarrow> Inl p
                | Inr (tok, c1) \<Rightarrow>
                    (let c2 = (case PayloadFunc mw of
                                 None \<Rightarrow> c1
                               | Some pf \<Rightarrow> mapCopyInto (Claims tok) (pf data) c1)
                     in case callTimeFunc mw c2 of
                          Inl p \<Rightarrow> Inl p
                        | Inr (t1, c3) \<Rightarrow>
                            (let expire = Add t1 (Timeout mw);
                                 c4 = mapSet (Claims tok) ''exp'' (VInt (Unix expire)) c3
                             in case callTimeFunc mw c4 of
                                  Inl p \<Rightarrow> Inl p
                                | Inr (t2, c5) \<Rightarrow>
                                    (let c6 = mapSet (Claims tok) ''orig_iat'' (VInt (Unix t2)) c5
                                     in case signedString E mw tok c6 of
                                          Inl e \<Rightarrow> unauthorizedErr mw c6 401 ErrFailedTokenCreation
                                        | Inr tokenString \<Rightarrow>
                                            (case loginCookie mw tokenString c6 of
                                               Inl p \<Rightarrow> Inl p
                                             | Inr c7 \<Rightarrow>
                                                 (case LoginResponse mw of
                                                    None \<Rightarrow> Inl NilDereference
                                                  | Some lr \<Rightarrow>
                                                      Inr (lr 200 tokenString expire c7)))))))))"

text \<open>
  \<open>CheckIfTokenExpire\<close>: the error of \<open>ParseToken\<close> is returned unless it is a
  validation error whose bits are exactly \<open>ValidationErrorExpired\<close>; then \<open>orig_iat\<close>
  is read with an unchecked type assertion and compared with the refresh window
  (\<open>checkOrigIat\<close>, the part of the function after the error branch).
  The result is the claim map of the token itself (its reference), or the error.
\<close>

definition onlyExpired :: "err \<Rightarrow> bool" where
  "onlyExpired e =
     (case e of ValidationError i t b \<Rightarrow> b = ValidationErrorExpired | _ \<Rightarrow> False)"

definition checkOrigIat ::
  "GinJWTMiddleware \<Rightarrow> token option \<Rightarrow> state \<Rightarrow> panic + (ref option \<times> err option) \<times> state" where
  "checkOrigIat mw tok c1 =
     (case tok of
        None \<Rightarrow> Inl NilDereference
      | Some t \<Rightarrow>
          (case mapGet c1 (Some (Claims t)) ''orig_iat'' of
             VFloat f \<Rightarrow>
               (case callTimeFunc mw c1 of
                  Inl p \<Rightarrow> Inl p
                | Inr (now, c2) \<Rightarrow>
                    (if int64 f < Unix (Add now (- MaxRefresh mw))
                     then Inr ((None, Some ErrExpiredToken), c2)
                     else Inr ((Some (Claims t), None), c2)))
           | _ \<Rightarrow> Inl TypeAssertion))"

definition CheckIfTokenExpire ::
  "env \<Rightarrow> GinJWTMiddleware \<Rightarrow> state \<Rightarrow> panic + (ref option \<times> err option) \<times> state" where
  "CheckIfTokenExpire E mw c =
     (case ParseToken E mw c of
        Inl p \<Rightarrow> Inl p
      | Inr ((tok, er), c1) \<Rightarrow>
          (case er of
             None \<Rightarrow> checkOrigIat mw tok c1
           | Some e \<Rightarrow>
               (if \<not> onlyExpired e then Inr ((None, Some e), c1)
                else checkOrigIat mw tok c1)))"

text \<open>
  The cookie block of \<open>RefreshToken\<close>: the expiry is read from \<open>TimeFunc\<close>, the
  present from the system clock.
\<close>

definition refreshCookie :: "env \<Rightarrow> GinJWTMiddleware \<Rightarrow> string \<Rightarrow> state \<Rightarrow> panic + state" where
  "refreshCookie E mw tokenString c =
     (if SendCookie mw
      then (case callTimeFunc mw c of
              Inl p \<Rightarrow> Inl p
            | Inr (t1, c1) \<Rightarrow>
                (let expireCookie = Add t1 (CookieMaxAge mw);
                     (t2, c2) = time_Now E c1;
                     maxage = Unix expireCookie - Unix t2;
                     c3 = (if CookieSameSite mw \<noteq> 0 then SetSameSite (CookieSameSite mw) c2
                           else c2)
                 in Inr (SetCookie (CookieName mw) tokenString maxage ''/''
                           (CookieDomain mw) (SecureCookie mw) (CookieHTTPOnly mw) c3)))
      else Inr c)"

text \<open>
  \<open>RefreshToken\<close> returns the token string, a time and the error. The new token gets a
  fresh claim map; the loop over the keys of the old claims copies each entry into it.
\<close>

definition RefreshToken ::
  "env \<Rightarrow> GinJWTMiddleware \<Rightarrow> state \<Rightarrow> panic + (string \<times> time \<times> err option) \<times> state" where
  "RefreshToken E mw c =
     (case CheckIfTokenExpire E mw c of
        Inl p \<Rightarrow> Inl p
      | Inr ((cl, Some e), c1) \<Rightarrow>
          (let (t, c2) = time_Now E c1 in Inr (([], t, Some e), c2))
      | Inr ((cl, None), c1) \<Rightarrow>
          (case jwt_New (GetSigningMethod (SigningAlgorithm mw)) c1 of
             Inl p \<Rightarrow> Inl p
           | Inr (newToken, c2) \<Rightarrow>
               (let c3 = mapCopyInto (Claims newToken) (map_option (heap c2) cl) c2
                in case callTimeFunc mw c3 of
                     Inl p \<Rightarrow> Inl p
                   | Inr (t1, c4) \<Rightarrow>
                       (let expire = Add t1 (Timeout mw);
                            c5 = mapSet (Claims newToken) ''exp'' (VInt (Unix expire)) c4
                        in case callTimeFunc mw c5 of
                             Inl p \<Rightarrow> Inl p
                           | Inr (t2, c6) \<Rightarrow>
                               (let c7 = mapSet (Claims newToken) ''orig_iat'' (VInt (Unix t2)) c6
                                in case signedString E mw newToken c7 of
                                     Inl e \<Rightarrow>
                                       (let (t, c8) = time_Now E c7 in Inr (([], t, Some e), c8))
                                   | Inr tokenString \<Rightarrow>
                                       (case refreshCookie E mw tokenString c7 of
                                          Inl p \<Rightarrow> Inl p
                                        | Inr c8 \<Rightarrow>
                                            Inr ((tokenString, expire, None), c8)))))))"

section \<open>A concrete environment, configuration and requests\<close>

text \<open>
  An environment for evaluating the definitions: six token strings decode (all
  others are malformed; the header of \<open>rs\<close> declares \<open>RS256\<close>, that of \<open>foo\<close> the
  unregistered \<open>FOO\<close>, the others \<open>HS256\<close>), a claim set whose \<open>exp\<close> is before second 1500 is expired for
  the library, only the key \<open>secret\<close> verifies, signing always succeeds, no file is
  readable and no PEM text parses, and the system clock stands shortly after second
  1500.
\<close>

definition exClaims :: claims where
  "exClaims = [''exp'' \<mapsto> VFloat 2000, ''orig_iat'' \<mapsto> VFloat 1000,
               ''identity'' \<mapsto> VString ''alice'']"

definition exEnv :: env where
  "exEnv =
     \<lparr>decodeSegments = (\<lambda>s.
          if s = ''good'' then Inr (Some ''HS256'', exClaims)
          else if s = ''noexp'' then
            Inr (Some ''HS256'', [''orig_iat'' \<mapsto> VFloat 1000, ''identity'' \<mapsto> VString ''alice''])
          else if s = ''old'' then
            Inr (Some ''HS256'', exClaims(''exp'' \<mapsto> VFloat 1400))
          else if s = ''noiat'' then
            Inr (Some ''HS256'', [''exp'' \<mapsto> VFloat 2000, ''identity'' \<mapsto> VString ''alice''])
          else if s = ''rs'' then Inr (Some ''RS256'', exClaims)
          else if s = ''foo'' then Inr (Some ''FOO'', exClaims)
          else Inl ''token contains an invalid number of segments''),
       claimsValid = (\<lambda>cl.
          case cl ''exp'' of
            Some (VFloat f) \<Rightarrow>
              if f < 1500 then Some (ValidationError None ''Token is expired'' ValidationErrorExpired)
              else None
          | _ \<Rightarrow> None),
       verify = (\<lambda>t k. if k = HMACKey (Some ''secret'') then None
                        else Some (ErrorString ''signature is invalid'')),
       signClaims = (\<lambda>t cl k. Inr ''signed''),
       readFile = (\<lambda>f. None),
       parseRSAPrivateKeyFromPEM = (\<lambda>d. None),
       parseRSAPrivateKeyFromPEMWithPassword = (\<lambda>d p. None),
       parseRSAPublicKeyFromPEM = (\<lambda>d. None),
       timeNow = (\<lambda>n. 1500000000000 + int n),
       formatRFC3339 = (\<lambda>t. ''1970-01-01T00:25:00Z'')\<rparr>"

text \<open>A configuration with the secret key set and every other field at its zero value.\<close>

definition exConfig :: GinJWTMiddleware where
  "exConfig =
     \<lparr>Realm = [], SigningAlgorithm = [], Key = Some ''secret'', KeyFunc = None,
      Timeout = 0, MaxRefresh = 0, Authenticator = None, Authorizator = None,
      PayloadFunc = None, Unauthorized = None, LoginResponse = None,
      LogoutResponse = None, RefreshResponse = None, IdentityHandler = None,
      IdentityKey = [], TokenLookup = [], TokenHeadName = [], TimeFunc = None,
      HTTPStatusMessageFunc = None, PrivKeyFile = [], PrivKeyBytes = None,
      PubKeyFile = [], PrivateKeyPassphrase = [], PubKeyBytes = None,
      privKey = None, pubKey = None, SendCookie = False, CookieMaxAge = 0,
      SecureCookie = False, CookieHTTPOnly = False, CookieDomain = [],
      SendAuthorization = False, DisabledAbort = False, CookieName = [],
      CookieSameSite = 0, FilteredURL = []\<rparr>"

text \<open>The middleware that \<open>MiddlewareInit\<close> makes of it.\<close>

definition exMw :: GinJWTMiddleware where
  "exMw = fst (MiddlewareInit exEnv exConfig)"

text \<open>
  A request to the default exempt path \<open>/douyin/test\<close> that carries nothing: no header,
  query parameter, cookie, path parameter or form field; and the same request with
  an \<open>Authorization\<close> header.
\<close>

text \<open>The same middleware, looking the token up in the form field \<open>token\<close> last.\<close>

definition exMwForm :: GinJWTMiddleware where
  "exMwForm = exMw\<lparr>TokenLookup := ''header:Authorization,postform:token''\<rparr>"

text \<open>The same middleware with a refresh window of 600 seconds.\<close>

definition exMwRefresh :: GinJWTMiddleware where
  "exMwRefresh = exMw\<lparr>MaxRefresh := 600000000000\<rparr>"

text \<open>The same middleware with an external key function that accepts every token.\<close>

definition exMwKeyFunc :: GinJWTMiddleware where
  "exMwKeyFunc = exMw\<lparr>KeyFunc := Some (\<lambda>t. Inr (HMACKey (Some ''secret'')))\<rparr>"

text \<open>
  The same middleware with an \<open>Authorizator\<close> that refuses everybody, and with a clock
  that stands at second 3000.
\<close>

definition exMwDeny :: GinJWTMiddleware where
  "exMwDeny = exMw\<lparr>Authorizator := Some (\<lambda>data c. False)\<rparr>"

definition exMwLate :: GinJWTMiddleware where
  "exMwLate = exMw\<lparr>TimeFunc := Some (\<lambda>n. 3000000000000)\<rparr>"

text \<open>
  The same middleware with an external key function that refuses every token with
  an error whose message is that of the empty form field; and with a refresh window
  of one and a half seconds and a clock that stands at second 1002.
\<close>

definition exMwKeyFuncError :: GinJWTMiddleware where
  "exMwKeyFuncError =
     exMw\<lparr>KeyFunc := Some (\<lambda>t. Inl (ErrorString ''form post token is empty''))\<rparr>"

definition exMwHalfSecond :: GinJWTMiddleware where
  "exMwHalfSecond =
     exMw\<lparr>MaxRefresh := 1500000000, TimeFunc := Some (\<lambda>n. 1002000000000)\<rparr>"

definition exRequest :: state where
  "exRequest =
     \<lparr>reqHeader = (\<lambda>k. []), reqQuery = (\<lambda>k. []), reqCookie = (\<lambda>k. []),
      reqParam = (\<lambda>k. []), reqPostForm = (\<lambda>k. []), reqPath = ''/douyin/test'',
      Keys = Map.empty, respHeader = Map.empty, respCookies = [], sameSite = 0,
      aborted = False, written = [], nexts = 0, heap = (\<lambda>r. Map.empty), hp = 0,
      ticks = 0\<rparr>"

definition withAuthorization :: "string \<Rightarrow> state \<Rightarrow> state" where
  "withAuthorization v c =
     c\<lparr>reqHeader := (\<lambda>k. if k = ''Authorization'' then v else reqHeader c k)\<rparr>"


abbreviation locate :: "GinJWTMiddleware \<Rightarrow> state \<Rightarrow> panic + string \<times> err option" where
  "locate mw c \<equiv> lookupLoop mw c (Split (TokenLookup mw) (CHR '','')) ([], None)"

abbreviation exempt :: "GinJWTMiddleware \<Rightarrow> state \<Rightarrow> bool" where
  "exempt mw c \<equiv> filteredLoop (reqPath c) (Split (FilteredURL mw) (CHR '',''))"

section \<open>Properties\<close>

subsection \<open>The middleware on an error of locating or verifying\<close>

lemmas int64_eval = int64_def MinInt64_def MaxInt64_def Let_def

lemmas init_defs = MiddlewareInit_def initDefaults_def defaultLookup_def defaultAlgorithm_def
   defaultTime_def defaultHeadName_def defaultAuthorizator_def defaultUnauthorized_def defaultLoginResponse_def
   defaultLogoutResponse_def defaultRefreshResponse_def defaultIdentity_def defaultStatusMessage_def defaultRealm_def
   defaultCookie_def usingPublicKeyAlgo_def TrimSpace_def IdentityKey_var_def

lemmas jwtFrom_defs = jwtFromHeader_def jwtFromQuery_def jwtFromCookie_def jwtFromParam_def jwtFromPostForm_def

lemma lookupLoop_error_kinds:
  "lookupLoop mw c ms te = Inr (t, Some e) \<Longrightarrow>
   snd te = Some e \<or>
   e \<in> {ErrEmptyAuthHeader, ErrInvalidAuthHeader, ErrEmptyQueryToken, ErrEmptyCookieToken,
        ErrEmptyParamToken, ErrEmptyPostFormToken}"
proof (induction ms arbitrary: te)
  case Nil
  then show ?case by simp
next
  case (Cons m ms)
  show ?case
  proof (cases "length (fst te) > 0")
    case True
    with Cons.prems show ?thesis by simp
  next
    case False
    let ?parts = "Split (TrimSpace m) (CHR '':'')"
    from False Cons.prems have len: "\<not> length ?parts < 2"
      by (auto simp: Let_def split: if_splits)
    obtain te' where step: "lookupLoop mw c ms te' = Inr (t, Some e)"
      and te': "te' = te \<or> te' = jwtFromHeader mw c (TrimSpace (?parts ! 1))
                \<or> te' = jwtFromQuery mw c (TrimSpace (?parts ! 1))
                \<or> te' = jwtFromCookie mw c (TrimSpace (?parts ! 1))
                \<or> te' = jwtFromParam mw c (TrimSpace (?parts ! 1))
                \<or> te' = jwtFromPostForm mw c (TrimSpace (?parts ! 1))"
      using False len Cons.prems by (auto simp: Let_def split: if_splits)
    from Cons.IH[OF step] te' show ?thesis
      by (auto simp: jwtFrom_defs Let_def split: if_splits)
  qed
qed

lemma locate_error_kinds:
  "locate mw c = Inr (t, Some e) \<Longrightarrow>
   e \<in> {ErrEmptyAuthHeader, ErrInvalidAuthHeader, ErrEmptyQueryToken, ErrEmptyCookieToken,
        ErrEmptyParamToken, ErrEmptyPostFormToken}"
  using lookupLoop_error_kinds[of mw c _ "([], None)" t e] by simp

lemma ParseToken_locate_error:
  "locate mw c = Inr (t, Some e) \<Longrightarrow> ParseToken E mw c = Inr ((None, Some e), c)"
  by (simp add: ParseToken_def)

lemma GetClaimsFromJWT_error:
  "ParseToken E mw c = Inr ((tok, Some e), c1) \<Longrightarrow>
   GetClaimsFromJWT E mw c = Inr ((None, Some e), c1)"
  by (simp add: GetClaimsFromJWT_def split: option.splits)

lemma mapGet_nil [simp]: "mapGet c None k = VNil"
  by (simp add: mapGet_def)

lemma checkExpPresent_nil:
  "checkExpPresent mw True None c = publishAndAuthorize mw True None c"
  by (simp add: checkExpPresent_def checkExpFormat_def checkExpired_def)

lemma middlewareImpl_error:
  assumes "ParseToken E mw c = Inr ((tok, Some e), c1)"
  shows "middlewareImpl E mw c =
     (if Error e \<noteq> ''form post token is empty'' then unauthorizedErr mw c1 401 e
      else if exempt mw c1 then publishAndAuthorize mw True None c1
      else unauthorizedErr mw c1 401 e)"
  using GetClaimsFromJWT_error[OF assms]
  by (simp add: middlewareImpl_def Let_def checkExpPresent_nil)

lemma exMw_eq:
  "exMw =
     \<lparr>Realm = ''gin jwt'', SigningAlgorithm = ''HS256'', Key = Some ''secret'', KeyFunc = None,
      Timeout = Hour, MaxRefresh = 0, Authenticator = None,
      Authorizator = Some (\<lambda>data c. True), PayloadFunc = None,
      Unauthorized = Some (\<lambda>code message.
         JSON code [(''code'', VInt code), (''message'', VString message)]),
      LoginResponse = Some (\<lambda>code tok expire.
         JSON 200 [(''code'', VInt 200), (''token'', VString tok),
                   (''expire'', VString (formatRFC3339 exEnv expire))]),
      LogoutResponse = Some (\<lambda>code. JSON 200 [(''code'', VInt 200)]),
      RefreshResponse = Some (\<lambda>code tok expire.
         JSON 200 [(''code'', VInt 200), (''token'', VString tok),
                   (''expire'', VString (formatRFC3339 exEnv expire))]),
      IdentityHandler = Some (defaultIdentityHandler ''identity''),
      IdentityKey = ''identity'', TokenLookup = ''header:Authorization'',
      TokenHeadName = ''Bearer'', TimeFunc = Some (timeNow exEnv),
      HTTPStatusMessageFunc = Some (\<lambda>e c. Error e), PrivKeyFile = [],
      PrivKeyBytes = None, PubKeyFile = [], PrivateKeyPassphrase = [],
      PubKeyBytes = None, privKey = None, pubKey = None,
      SendCookie = False, CookieMaxAge = Hour, SecureCookie = False,
      CookieHTTPOnly = False, CookieDomain = [], SendAuthorization = False,
      DisabledAbort = False, CookieName = ''jwt'', CookieSameSite = 0,
      FilteredURL = ''/douyin/test''\<rparr>"
  by (simp add: exMw_def init_defs exConfig_def Let_def)

lemma locate_exMw_empty: "locate exMw exRequest = Inr ([], Some ErrEmptyAuthHeader)"
  by (simp add: exMw_eq exRequest_def TrimSpace_def isSpace_def jwtFromHeader_def Let_def)

lemma locate_exMwForm_empty: "locate exMwForm exRequest = Inr ([], Some ErrEmptyPostFormToken)"
  by (simp add: exMwForm_def exMw_eq exRequest_def TrimSpace_def isSpace_def jwtFrom_defs Let_def)

lemma exempt_exRequest: "exempt exMw exRequest"
  by (simp add: exMw_eq exRequest_def TrimSpace_def isSpace_def)

lemma locate_exMw_rs: "locate exMw (withAuthorization ''Bearer rs'' exRequest) = Inr (''rs'', None)"
  by (simp add: exMw_eq exRequest_def withAuthorization_def TrimSpace_def isSpace_def jwtFromHeader_def SplitN2_def Let_def)


lemma jwt_Parse_frame:
  assumes "jwt_Parse E s kf c = ((Some tok, er), c1)"
    and kf: "\<And>t c'. \<exists>ks. snd (kf t c') = c'\<lparr>Keys := ks\<rparr>"
  shows "Claims tok = hp c \<and> hp c1 = Suc (hp c) \<and> ticks c1 = ticks c
         \<and> reqPath c1 = reqPath c
         \<and> (\<forall>r. r \<noteq> hp c \<longrightarrow> heap c1 r = heap c r)"
proof (cases "decodeSegments E s")
  case (Inl msg)
  with assms(1) show ?thesis by (simp add: jwt_Parse_def ParseUnverified_def)
next
  case (Inr p)
  obtain alg cl where p: "p = (alg, cl)" by (cases p)
  define c2 where "c2 = c\<lparr>heap := (heap c)(hp c := cl), hp := Suc (hp c)\<rparr>"
  define t0 where "t0 = \<lparr>Raw = s, Method = None, Claims = hp c, Valid = False\<rparr>"
  have pu: "ParseUnverified E s c =
     (case alg of
        None \<Rightarrow> ((Some t0, Some (ValidationError None
                      ''signing method (alg) is unspecified.'' ValidationErrorUnverifiable)), c2)
      | Some a \<Rightarrow>
          (case GetSigningMethod a of
             None \<Rightarrow> ((Some t0, Some (ValidationError None
                           ''signing method (alg) is unavailable.'' ValidationErrorUnverifiable)), c2)
           | Some m \<Rightarrow> ((Some (t0\<lparr>Method := Some m\<rparr>), None), c2)))"
    by (simp add: ParseUnverified_def Inr p newMap_def c2_def t0_def Let_def split: option.splits)
  have c2: "hp c2 = Suc (hp c)" "ticks c2 = ticks c" "reqPath c2 = reqPath c"
    "\<forall>r. r \<noteq> hp c \<longrightarrow> heap c2 r = heap c r"
    by (simp_all add: c2_def)
  show ?thesis
  proof (cases "\<exists>m. alg = Some m \<and> GetSigningMethod m = Some m")
    case False
    then have "\<exists>e. ParseUnverified E s c = ((Some t0, Some e), c2)"
      using pu by (auto simp: GetSigningMethod_def split: option.splits if_splits)
    then obtain e where "ParseUnverified E s c = ((Some t0, Some e), c2)" by blast
    with assms(1) have "tok = t0" "c1 = c2" by (simp_all add: jwt_Parse_def)
    with c2 show ?thesis by (simp add: t0_def)
  next
    case True
    then obtain m where m: "alg = Some m" "GetSigningMethod m = Some m" by blast
    define t1 where "t1 = t0\<lparr>Method := Some m\<rparr>"
    have pu': "ParseUnverified E s c = ((Some t1, None), c2)"
      using pu m by (simp add: t1_def)
    obtain ks where ks: "snd (kf t1 c2) = c2\<lparr>Keys := ks\<rparr>" using kf by blast
    obtain res c3 where k3: "kf t1 c2 = (res, c3)" by (cases "kf t1 c2")
    with ks have c3: "c3 = c2\<lparr>Keys := ks\<rparr>" by simp
    from assms(1) pu' k3 have "c1 = c3 \<and> Claims tok = Claims t1"
      by (auto simp: jwt_Parse_def Let_def split: sum.splits prod.splits if_splits option.splits)
    with c3 c2 show ?thesis by (simp add: t1_def t0_def)
  qed
qed

lemma defaultKeyFunc_keys: "\<exists>ks. snd (defaultKeyFunc mw s t c') = c'\<lparr>Keys := ks\<rparr>"
proof (cases "snd (defaultKeyFunc mw s t c') = c'")
  case True
  then have "snd (defaultKeyFunc mw s t c') = c'\<lparr>Keys := Keys c'\<rparr>" by simp
  then show ?thesis by blast
next
  case False
  then have "snd (defaultKeyFunc mw s t c') = c'\<lparr>Keys := (Keys c')(''JWT_TOKEN'' \<mapsto> VString s)\<rparr>"
    by (simp add: defaultKeyFunc_def Set_def split: if_splits)
  then show ?thesis by blast
qed

lemma ParseToken_frame:
  assumes "ParseToken E mw c = Inr ((Some tok, er), c1)"
  shows "Claims tok = hp c \<and> hp c1 = Suc (hp c) \<and> ticks c1 = ticks c
         \<and> reqPath c1 = reqPath c
         \<and> (\<forall>r. r \<noteq> hp c \<longrightarrow> heap c1 r = heap c r)"
proof -
  from assms obtain s where loc: "locate mw c = Inr (s, None)"
    by (auto simp: ParseToken_def split: sum.splits option.splits prod.splits)
  show ?thesis
  proof (cases "KeyFunc mw")
    case None
    with assms loc have "jwt_Parse E s (defaultKeyFunc mw s) c = ((Some tok, er), c1)"
      by (simp add: ParseToken_def)
    then show ?thesis by (rule jwt_Parse_frame) (rule defaultKeyFunc_keys)
  next
    case (Some kf)
    with assms loc have p: "jwt_Parse E s (\<lambda>t c'. (kf t, c')) c = ((Some tok, er), c1)"
      by (simp add: ParseToken_def)
    show ?thesis
    proof (rule jwt_Parse_frame[OF p])
      fix t :: token and c' :: state
      show "\<exists>ks. snd (kf t, c') = c'\<lparr>Keys := ks\<rparr>"
        by (rule exI[of _ "Keys c'"]) simp
    qed
  qed
qed


lemma unauthorizedErr_init:
  assumes "Unauthorized mw = Some u" and "HTTPStatusMessageFunc mw = Some h"
  shows "unauthorizedErr mw c code e =
     Inr (u code (h e c)
       (if DisabledAbort mw then Header ''WWW-Authenticate'' (''JWT realm='' @ Realm mw) c
        else Abort (Header ''WWW-Authenticate'' (''JWT realm='' @ Realm mw) c)))"
  using assms by (simp add: unauthorizedErr_def unauthorized_def Let_def)

lemma unauthorizedErr_exMw:
  "unauthorizedErr exMw c code e =
     Inr (JSON code [(''code'', VInt code), (''message'', VString (Error e))]
            (Abort (Header ''WWW-Authenticate'' ''JWT realm=gin jwt'' c)))"
  by (simp add: unauthorizedErr_def unauthorized_def exMw_eq Let_def)

lemma unauthorizedErr_exMw_written:
  "map_sum id written (unauthorizedErr exMw c code e) =
     Inr (written c @ [(code, [(''code'', VInt code), (''message'', VString (Error e))])])"
  by (simp add: unauthorizedErr_exMw JSON_def Abort_def Header_def)

lemma ParseToken_exMw_rs:
  "ParseToken exEnv exMw (withAuthorization ''Bearer rs'' exRequest) =
     Inr ((Some \<lparr>Raw = ''rs'', Method = Some ''RS256'', Claims = 0, Valid = False\<rparr>,
           Some (ValidationError (Some ErrInvalidSigningAlgorithm) [] ValidationErrorUnverifiable)),
          withAuthorization ''Bearer rs'' exRequest\<lparr>heap := (\<lambda>r. Map.empty)(0 := exClaims), hp := 1\<rparr>)"
proof -
  have hp0: "hp (withAuthorization ''Bearer rs'' exRequest) = 0"
    and heap0: "heap (withAuthorization ''Bearer rs'' exRequest) = (\<lambda>r. Map.empty)"
    by (simp_all add: withAuthorization_def exRequest_def)
  show ?thesis
    by (simp add: ParseToken_def locate_exMw_rs)
       (simp add: exMw_eq jwt_Parse_def ParseUnverified_def exEnv_def newMap_def
          GetSigningMethod_def signingMethods_def defaultKeyFunc_def wrapKeyFuncError_def
          Let_def hp0 heap0)
qed

subsection \<open>The header source\<close>

lemma SplitN2_no_sep: "sep \<notin> set s \<Longrightarrow> SplitN2 s sep = [s]"
proof -
  assume "sep \<notin> set s"
  then have d: "dropWhile (\<lambda>ch. ch \<noteq> sep) s = []" by (induction s) auto
  show ?thesis unfolding SplitN2_def d by simp
qed

lemma SplitN2_first_sep: "sep \<notin> set a \<Longrightarrow> SplitN2 (a @ sep # b) sep = [a, b]"
proof -
  assume a: "sep \<notin> set a"
  then have d: "dropWhile (\<lambda>ch. ch \<noteq> sep) (a @ sep # b) = sep # b"
    by (induction a) auto
  from a have t: "takeWhile (\<lambda>ch. ch \<noteq> sep) (a @ sep # b) = a"
    by (induction a) auto
  show ?thesis unfolding SplitN2_def d t by simp
qed

lemma first_sep_unique:
  fixes a b a' b' :: string
  assumes "a @ sep # b = a' @ sep # b'" and "sep \<notin> set a" and "sep \<notin> set a'"
  shows "a = a' \<and> b = b'"
proof -
  have "[a, b] = SplitN2 (a @ sep # b) sep" using assms(2) by (simp add: SplitN2_first_sep)
  also have "\<dots> = SplitN2 (a' @ sep # b') sep" using assms(1) by simp
  also have "\<dots> = [a', b']" using assms(3) by (simp add: SplitN2_first_sep)
  finally show ?thesis by simp
qed

text \<open>
  Claim C8. The header source returns the empty-header error for an empty header
  value; for a value that is cut at its first space into the configured head name
  (compared as it is, byte by byte) and a rest, it returns the rest as the token;
  for every other value it returns the invalid-header error.
\<close>

theorem jwtFromHeader_cases:
  "(reqHeader c k = [] \<longrightarrow> jwtFromHeader mw c k = ([], Some ErrEmptyAuthHeader)) \<and>
   (\<forall>a b. reqHeader c k = a @ CHR '' '' # b \<and> CHR '' '' \<notin> set a \<and> a = TokenHeadName mw \<longrightarrow>
      jwtFromHeader mw c k = (b, None)) \<and>
   (reqHeader c k \<noteq> [] \<and>
    \<not> (\<exists>a b. reqHeader c k = a @ CHR '' '' # b \<and> CHR '' '' \<notin> set a \<and> a = TokenHeadName mw) \<longrightarrow>
      jwtFromHeader mw c k = ([], Some ErrInvalidAuthHeader))"
proof (intro conjI allI impI)
  assume "reqHeader c k = []"
  then show "jwtFromHeader mw c k = ([], Some ErrEmptyAuthHeader)"
    by (simp add: jwtFromHeader_def)
next
  fix a b
  assume "reqHeader c k = a @ CHR '' '' # b \<and> CHR '' '' \<notin> set a \<and> a = TokenHeadName mw"
  then have h: "reqHeader c k = a @ CHR '' '' # b" and a: "CHR '' '' \<notin> set a"
    and n: "a = TokenHeadName mw" by blast+
  have parts: "SplitN2 (reqHeader c k) (CHR '' '') = [a, b]"
    unfolding h using a by (rule SplitN2_first_sep)
  from h have ne: "reqHeader c k \<noteq> []" by simp
  show "jwtFromHeader mw c k = (b, None)"
    using ne n by (simp add: jwtFromHeader_def parts Let_def)
next
  assume h: "reqHeader c k \<noteq> [] \<and>
    \<not> (\<exists>a b. reqHeader c k = a @ CHR '' '' # b \<and> CHR '' '' \<notin> set a \<and> a = TokenHeadName mw)"
  show "jwtFromHeader mw c k = ([], Some ErrInvalidAuthHeader)"
  proof (cases "CHR '' '' \<in> set (reqHeader c k)")
    case False
    then have "SplitN2 (reqHeader c k) (CHR '' '') = [reqHeader c k]"
      by (rule SplitN2_no_sep)
    with h show ?thesis by (simp add: jwtFromHeader_def Let_def)
  next
    case True
    then obtain a b where ab: "reqHeader c k = a @ CHR '' '' # b" "CHR '' '' \<notin> set a"
      by (auto dest: split_list_first)
    then have parts: "SplitN2 (reqHeader c k) (CHR '' '') = [a, b]"
      by (simp add: SplitN2_first_sep)
    from h ab have "a \<noteq> TokenHeadName mw" by blast
    with h parts show ?thesis by (simp add: jwtFromHeader_def Let_def)
  qed
qed

theorem jwtFromHeader_cases_witness:
  "jwtFromHeader exMw exRequest ''Authorization'' = ([], Some ErrEmptyAuthHeader) \<and>
   jwtFromHeader exMw (withAuthorization ''Bearer a b'' exRequest) ''Authorization'' = (''a b'', None) \<and>
   jwtFromHeader exMw (withAuthorization ''bearer good'' exRequest) ''Authorization''
     = ([], Some ErrInvalidAuthHeader) \<and>
   jwtFromHeader exMw (withAuthorization ''Bearer'' exRequest) ''Authorization''
     = ([], Some ErrInvalidAuthHeader)"
proof -
  have head: "TokenHeadName exMw = ''Bearer''" by (simp add: exMw_eq)
  have h0: "reqHeader exRequest ''Authorization'' = []" by (simp add: exRequest_def)
  have hv: "\<And>v. reqHeader (withAuthorization v exRequest) ''Authorization'' = v"
    by (simp add: withAuthorization_def)
  note T = jwtFromHeader_cases[where mw = exMw and k = "''Authorization''"]
  have a: "jwtFromHeader exMw exRequest ''Authorization'' = ([], Some ErrEmptyAuthHeader)"
    using T[of exRequest, THEN conjunct1] h0 by simp
  have b: "jwtFromHeader exMw (withAuthorization ''Bearer a b'' exRequest) ''Authorization''
      = (''a b'', None)"
    using T[of "withAuthorization ''Bearer a b'' exRequest", THEN conjunct2, THEN conjunct1,
            rule_format, of "''Bearer''" "''a b''"]
    by (simp add: hv head)
  have nc: "\<not> (\<exists>a b. ''bearer good'' = a @ CHR '' '' # b \<and> CHR '' '' \<notin> set a \<and> a = ''Bearer'')"
  proof
    assume "\<exists>a b. ''bearer good'' = a @ CHR '' '' # b \<and> CHR '' '' \<notin> set a \<and> a = ''Bearer''"
    then obtain b where "''bearer good'' = ''Bearer'' @ CHR '' '' # b" by blast
    then show False by simp
  qed
  have c: "jwtFromHeader exMw (withAuthorization ''bearer good'' exRequest) ''Authorization''
      = ([], Some ErrInvalidAuthHeader)"
    using T[of "withAuthorization ''bearer good'' exRequest", THEN conjunct2, THEN conjunct2,
            rule_format] nc
    by (simp only: hv head) simp
  have nd: "\<not> (\<exists>a b. ''Bearer'' = a @ CHR '' '' # b \<and> CHR '' '' \<notin> set a \<and> a = ''Bearer'')"
  proof
    assume "\<exists>a b. ''Bearer'' = a @ CHR '' '' # b \<and> CHR '' '' \<notin> set a \<and> a = ''Bearer''"
    then obtain b where "''Bearer'' = ''Bearer'' @ CHR '' '' # b" by blast
    then show False by simp
  qed
  have d: "jwtFromHeader exMw (withAuthorization ''Bearer'' exRequest) ''Authorization''
      = ([], Some ErrInvalidAuthHeader)"
    using T[of "withAuthorization ''Bearer'' exRequest", THEN conjunct2, THEN conjunct2,
            rule_format] nd
    by (simp only: hv head) simp
  from a b c d show ?thesis by simp
qed


subsection \<open>Refresh: which verification errors are tolerated\<close>

lemma RefreshToken_error:
  "CheckIfTokenExpire E mw c = Inr ((cl, Some e), c1) \<Longrightarrow>
   RefreshToken E mw c = Inr (([], timeNow E (ticks c1), Some e), c1\<lparr>ticks := Suc (ticks c1)\<rparr>)"
  by (simp add: RefreshToken_def time_Now_def split: option.splits)

lemma RefreshToken_panic:
  "CheckIfTokenExpire E mw c = Inl p \<Longrightarrow> RefreshToken E mw c = Inl p"
  by (simp add: RefreshToken_def)

lemma onlyExpired_iff: "onlyExpired e \<longleftrightarrow> (\<exists>i t. e = ValidationError i t ValidationErrorExpired)"
  by (cases e) (simp_all add: onlyExpired_def)

lemmas eval_parse = ParseToken_def jwt_Parse_def ParseUnverified_def exEnv_def newMap_def
  GetSigningMethod_def signingMethods_def defaultKeyFunc_def wrapKeyFuncError_def
  claimsError_def usingPublicKeyAlgo_def Set_def Let_def TrimSpace_def isSpace_def
  jwtFromHeader_def SplitN2_def exRequest_def withAuthorization_def exClaims_def
  ValidationErrorExpired_def ValidationErrorUnverifiable_def ValidationErrorMalformed_def
  ValidationErrorSignatureInvalid_def

lemma ParseToken_exMwRefresh_old:
  "ParseToken exEnv exMwRefresh (withAuthorization ''Bearer old'' exRequest) =
     Inr ((Some \<lparr>Raw = ''old'', Method = Some ''HS256'', Claims = 0, Valid = False\<rparr>,
           Some (ValidationError None ''Token is expired'' ValidationErrorExpired)),
          withAuthorization ''Bearer old'' exRequest
            \<lparr>Keys := [''JWT_TOKEN'' \<mapsto> VString ''old''],
             heap := (\<lambda>r. Map.empty)(0 := exClaims(''exp'' \<mapsto> VFloat 1400)), hp := 1\<rparr>)"
  by (simp add: exMwRefresh_def exMw_eq eval_parse)

lemma ParseToken_exMwRefresh_rs:
  "ParseToken exEnv exMwRefresh (withAuthorization ''Bearer rs'' exRequest) =
     Inr ((Some \<lparr>Raw = ''rs'', Method = Some ''RS256'', Claims = 0, Valid = False\<rparr>,
           Some (ValidationError (Some ErrInvalidSigningAlgorithm) [] ValidationErrorUnverifiable)),
          withAuthorization ''Bearer rs'' exRequest\<lparr>heap := (\<lambda>r. Map.empty)(0 := exClaims), hp := 1\<rparr>)"
  by (simp add: exMwRefresh_def exMw_eq eval_parse)

text \<open>
  Claim C5. \<open>CheckIfTokenExpire\<close> goes on to the check of \<open>orig_iat\<close> exactly as after
  a successful verification when the error of the verification is a validation error
  whose bits are \<open>ValidationErrorExpired\<close> and nothing else; with any other error it
  returns that error, and so does \<open>RefreshToken\<close>.
\<close>

theorem CheckIfTokenExpire_tolerates_only_expired:
  "(\<forall>tok c1. ParseToken E mw c = Inr ((tok, None), c1) \<longrightarrow>
      CheckIfTokenExpire E mw c = checkOrigIat mw tok c1) \<and>
   (\<forall>tok e c1. ParseToken E mw c = Inr ((tok, Some e), c1) \<longrightarrow>
      (onlyExpired e \<longleftrightarrow> (\<exists>i t. e = ValidationError i t ValidationErrorExpired)) \<and>
      (onlyExpired e \<longrightarrow> CheckIfTokenExpire E mw c = checkOrigIat mw tok c1) \<and>
      (\<not> onlyExpired e \<longrightarrow>
         CheckIfTokenExpire E mw c = Inr ((None, Some e), c1) \<and>
         RefreshToken E mw c =
           Inr (([], timeNow E (ticks c1), Some e), c1\<lparr>ticks := Suc (ticks c1)\<rparr>)))"
proof (intro conjI allI impI)
  fix tok c1 assume "ParseToken E mw c = Inr ((tok, None), c1)"
  then show "CheckIfTokenExpire E mw c = checkOrigIat mw tok c1"
    by (simp add: CheckIfTokenExpire_def)
next
  fix tok e c1 assume p: "ParseToken E mw c = Inr ((tok, Some e), c1)"
  show "onlyExpired e \<longleftrightarrow> (\<exists>i t. e = ValidationError i t ValidationErrorExpired)"
    by (rule onlyExpired_iff)
  { assume "onlyExpired e"
    with p show "CheckIfTokenExpire E mw c = checkOrigIat mw tok c1"
      by (simp add: CheckIfTokenExpire_def) }
  { assume "\<not> onlyExpired e"
    with p show chk: "CheckIfTokenExpire E mw c = Inr ((None, Some e), c1)"
      by (simp add: CheckIfTokenExpire_def)
    show "RefreshToken E mw c =
           Inr (([], timeNow E (ticks c1), Some e), c1\<lparr>ticks := Suc (ticks c1)\<rparr>)"
      by (rule RefreshToken_error[OF chk]) }
qed

theorem CheckIfTokenExpire_tolerates_only_expired_witness:
  "map_sum id fst (CheckIfTokenExpire exEnv exMwRefresh (withAuthorization ''Bearer old'' exRequest))
     = Inr (Some 0, None) \<and>
   map_sum id fst (RefreshToken exEnv exMwRefresh (withAuthorization ''Bearer rs'' exRequest))
     = Inr ([], 1500000000000,
            Some (ValidationError (Some ErrInvalidSigningAlgorithm) [] ValidationErrorUnverifiable))"
proof -
  note T = CheckIfTokenExpire_tolerates_only_expired[of exEnv exMwRefresh, THEN conjunct2, rule_format]
  have a: "CheckIfTokenExpire exEnv exMwRefresh (withAuthorization ''Bearer old'' exRequest) =
      checkOrigIat exMwRefresh (Some \<lparr>Raw = ''old'', Method = Some ''HS256'', Claims = 0, Valid = False\<rparr>)
        (withAuthorization ''Bearer old'' exRequest
            \<lparr>Keys := [''JWT_TOKEN'' \<mapsto> VString ''old''],
             heap := (\<lambda>r. Map.empty)(0 := exClaims(''exp'' \<mapsto> VFloat 1400)), hp := 1\<rparr>)"
    using T[OF ParseToken_exMwRefresh_old] by (simp add: onlyExpired_def)
  have b: "RefreshToken exEnv exMwRefresh (withAuthorization ''Bearer rs'' exRequest) =
      Inr (([], timeNow exEnv (ticks (withAuthorization ''Bearer rs'' exRequest
                \<lparr>heap := (\<lambda>r. Map.empty)(0 := exClaims), hp := 1\<rparr>)),
            Some (ValidationError (Some ErrInvalidSigningAlgorithm) [] ValidationErrorUnverifiable)),
           withAuthorization ''Bearer rs'' exRequest
             \<lparr>heap := (\<lambda>r. Map.empty)(0 := exClaims), hp := 1\<rparr>
             \<lparr>ticks := Suc (ticks (withAuthorization ''Bearer rs'' exRequest
                \<lparr>heap := (\<lambda>r. Map.empty)(0 := exClaims), hp := 1\<rparr>))\<rparr>)"
    using T[OF ParseToken_exMwRefresh_rs]
    by (simp add: onlyExpired_def ValidationErrorExpired_def ValidationErrorUnverifiable_def)
  show ?thesis
    unfolding a b
    by (simp add: checkOrigIat_def mapGet_def callTimeFunc_def exMwRefresh_def exMw_eq
          exClaims_def int64_eval Unix_def Add_def exEnv_def withAuthorization_def exRequest_def)
qed

text \<open>
  Claim C10. When the presented token verifies, or fails with the expired error only,
  and its claims hold no \<open>orig_iat\<close> of type \<open>float64\<close>, the unchecked type assertion
  of \<open>CheckIfTokenExpire\<close> panics: neither it nor \<open>RefreshToken\<close> returns an error value.
\<close>

theorem CheckIfTokenExpire_orig_iat_panics:
  assumes "ParseToken E mw c = Inr ((Some tok, er), c1)"
    and "er = None \<or> (\<exists>e. er = Some e \<and> onlyExpired e)"
    and "\<forall>f. heap c1 (Claims tok) ''orig_iat'' \<noteq> Some (VFloat f)"
  shows "CheckIfTokenExpire E mw c = Inl TypeAssertion \<and>
         RefreshToken E mw c = Inl TypeAssertion"
proof -
  have "CheckIfTokenExpire E mw c = checkOrigIat mw (Some tok) c1"
    using assms(1,2) by (auto simp: CheckIfTokenExpire_def)
  moreover have "checkOrigIat mw (Some tok) c1 = Inl TypeAssertion"
    using assms(3)
    by (auto simp: checkOrigIat_def mapGet_def split: option.splits jvalue.splits)
  ultimately have chk: "CheckIfTokenExpire E mw c = Inl TypeAssertion" by simp
  with RefreshToken_panic[OF chk] show ?thesis by simp
qed

lemma ParseToken_exMw_noiat:
  "ParseToken exEnv exMw (withAuthorization ''Bearer noiat'' exRequest) =
     Inr ((Some \<lparr>Raw = ''noiat'', Method = Some ''HS256'', Claims = 0, Valid = True\<rparr>, None),
          withAuthorization ''Bearer noiat'' exRequest
            \<lparr>Keys := [''JWT_TOKEN'' \<mapsto> VString ''noiat''],
             heap := (\<lambda>r. Map.empty)
               (0 := [''exp'' \<mapsto> VFloat 2000, ''identity'' \<mapsto> VString ''alice'']), hp := 1\<rparr>)"
  by (simp add: exMw_eq eval_parse)

theorem CheckIfTokenExpire_orig_iat_panics_witness:
  "CheckIfTokenExpire exEnv exMw (withAuthorization ''Bearer noiat'' exRequest) = Inl TypeAssertion \<and>
   RefreshToken exEnv exMw (withAuthorization ''Bearer noiat'' exRequest) = Inl TypeAssertion"
  by (rule CheckIfTokenExpire_orig_iat_panics[OF ParseToken_exMw_noiat])
     (simp_all add: withAuthorization_def exRequest_def)


subsection \<open>Refresh: the window and the new claim set\<close>

lemma refreshCookie_ok:
  assumes "TimeFunc mw = Some tf"
  shows "\<exists>c8. refreshCookie E mw s c = Inr c8 \<and> heap c8 = heap c \<and> hp c8 = hp c"
  using assms
  by (simp add: refreshCookie_def callTimeFunc_def time_Now_def SetCookie_def SetSameSite_def Let_def)

lemma checkOrigIat_float:
  assumes "heap c1 (Claims tok) ''orig_iat'' = Some (VFloat origIat)"
    and "TimeFunc mw = Some tf"
  shows "checkOrigIat mw (Some tok) c1 =
     (if int64 origIat < Unix (Add (tf (ticks c1)) (- MaxRefresh mw))
      then Inr ((None, Some ErrExpiredToken), c1\<lparr>ticks := Suc (ticks c1)\<rparr>)
      else Inr ((Some (Claims tok), None), c1\<lparr>ticks := Suc (ticks c1)\<rparr>))"
  using assms by (simp add: checkOrigIat_def mapGet_def callTimeFunc_def)

lemma CheckIfTokenExpire_verified:
  assumes "ParseToken E mw c = Inr ((Some tok, er), c1)"
    and "er = None \<or> (\<exists>e. er = Some e \<and> onlyExpired e)"
  shows "CheckIfTokenExpire E mw c = checkOrigIat mw (Some tok) c1"
  using assms by (auto simp: CheckIfTokenExpire_def)

lemma RefreshToken_checked:
  assumes chk: "CheckIfTokenExpire E mw c = Inr ((Some r, None), c2)"
    and fresh: "r \<noteq> hp c2"
    and tf: "TimeFunc mw = Some tf"
    and alg: "GetSigningMethod (SigningAlgorithm mw) = Some alg"
    and c7: "c7 = c2\<lparr>hp := Suc (hp c2), ticks := Suc (Suc (ticks c2)),
                heap := (heap c2)(hp c2 :=
                  (heap c2 r)(''exp'' \<mapsto> VInt (Unix (Add (tf (ticks c2)) (Timeout mw))),
                              ''orig_iat'' \<mapsto> VInt (Unix (tf (Suc (ticks c2))))))\<rparr>"
    and sign: "signedString E mw \<lparr>Raw = [], Method = Some alg, Claims = hp c2, Valid = False\<rparr> c7
                 = Inr s"
  shows "\<exists>c8. RefreshToken E mw c = Inr ((s, Add (tf (ticks c2)) (Timeout mw), None), c8)
              \<and> heap c8 = heap c7 \<and> hp c8 = hp c7"
proof -
  obtain c8 where c8: "refreshCookie E mw s c7 = Inr c8" "heap c8 = heap c7" "hp c8 = hp c7"
    using refreshCookie_ok[OF tf] by blast
  have "RefreshToken E mw c = Inr ((s, Add (tf (ticks c2)) (Timeout mw), None), c8)"
    using fresh sign[unfolded c7] c8(1)[unfolded c7]
    by (simp add: RefreshToken_def chk jwt_New_def alg newMap_def mapCopyInto_def
          callTimeFunc_def tf mapSet_def Let_def)
  with c8 show ?thesis by blast
qed


lemma signedString_heap:
  "heap c' = heap c \<Longrightarrow> signedString E mw t c' = signedString E mw t c"
  by (simp add: signedString_def)

lemma refresh_window_seconds:
  "Unix (Add now (- (m * 1000000000))) \<le> x \<longleftrightarrow> Unix now - x \<le> m"
proof -
  have "(now + - (m * 1000000000)) div 1000000000 = now div 1000000000 - m"
    using div_mult_self1[of "1000000000::int" now "- m"] by (simp add: algebra_simps)
  then show ?thesis by (auto simp: Unix_def Add_def)
qed

text \<open>
  Claim C4, as the code has it. Let the presented token verify, or fail with the
  expired error only, and carry a \<open>float64\<close> claim \<open>orig_iat\<close> within the range of
  \<open>int64\<close>; let \<open>now\<close> be what \<open>TimeFunc\<close> returns at each of its calls. If the Unix
  second of \<open>now - MaxRefresh\<close> is not after the truncated \<open>orig_iat\<close>, then refresh
  returns the token that the library signs for the old claims with \<open>exp\<close> set to the
  second of \<open>now + Timeout\<close> and \<open>orig_iat\<close> set to the second of \<open>now\<close> (given that the
  signing method is registered and signing succeeds), together with the expiry
  \<open>now + Timeout\<close>. Otherwise refresh fails with \<open>ErrExpiredToken\<close>. For a \<open>MaxRefresh\<close>
  of whole seconds and an \<open>orig_iat\<close> that is not negative, the condition is
  \<open>now - orig_iat \<le> MaxRefresh\<close> with \<open>now\<close> in Unix seconds.
\<close>

theorem RefreshToken_window:
  assumes parse: "ParseToken E mw c = Inr ((Some tok, er), c1)"
    and verified: "er = None \<or> (\<exists>e. er = Some e \<and> onlyExpired e)"
    and iat: "heap c1 (Claims tok) ''orig_iat'' = Some (VFloat origIat)"
    and tf: "TimeFunc mw = Some tf"
    and range: "real_of_int MinInt64 \<le> origIat \<and> origIat < real_of_int MaxInt64 + 1"
  shows "(Unix (Add (tf (ticks c1)) (- MaxRefresh mw)) \<le> int64 origIat \<longrightarrow>
            (\<forall>alg s. GetSigningMethod (SigningAlgorithm mw) = Some alg \<and>
                signClaims E \<lparr>Raw = [], Method = Some alg, Claims = hp c1, Valid = False\<rparr>
                  ((heap c1 (Claims tok))
                     (''exp'' \<mapsto> VInt (Unix (Add (tf (Suc (ticks c1))) (Timeout mw))),
                      ''orig_iat'' \<mapsto> VInt (Unix (tf (Suc (Suc (ticks c1)))))))
                  (if usingPublicKeyAlgo mw then RSAPrivateKey (privKey mw) else HMACKey (Key mw))
                = Inr s \<longrightarrow>
              (\<exists>c'. RefreshToken E mw c =
                       Inr ((s, Add (tf (Suc (ticks c1))) (Timeout mw), None), c') \<and>
                     heap c' (hp c1) ''exp'' =
                       Some (VInt (Unix (Add (tf (Suc (ticks c1))) (Timeout mw)))) \<and>
                     heap c' (hp c1) ''orig_iat'' =
                       Some (VInt (Unix (tf (Suc (Suc (ticks c1))))))))) \<and>
         (int64 origIat < Unix (Add (tf (ticks c1)) (- MaxRefresh mw)) \<longrightarrow>
            RefreshToken E mw c =
              Inr (([], timeNow E (Suc (ticks c1)), Some ErrExpiredToken),
                   c1\<lparr>ticks := Suc (Suc (ticks c1))\<rparr>)) \<and>
         (\<forall>m. MaxRefresh mw = m * 1000000000 \<and> 0 \<le> origIat \<longrightarrow>
            (Unix (Add (tf (ticks c1)) (- MaxRefresh mw)) \<le> int64 origIat
               \<longleftrightarrow> real_of_int (Unix (tf (ticks c1))) - origIat \<le> real_of_int m))"
proof (intro conjI allI impI)
  fix m assume h: "MaxRefresh mw = m * 1000000000 \<and> 0 \<le> origIat"
  from range have "origIat < real_of_int (MaxInt64 + 1)" by simp
  then have "\<lfloor>origIat\<rfloor> < MaxInt64 + 1" by (simp only: floor_less_iff)
  then have up: "\<lfloor>origIat\<rfloor> \<le> MaxInt64" by linarith
  from h have "0 \<le> \<lfloor>origIat\<rfloor>" by simp
  then have lo: "MinInt64 \<le> \<lfloor>origIat\<rfloor>" by (simp add: MinInt64_def)
  have fl: "int64 origIat = \<lfloor>origIat\<rfloor>"
    using h up lo by (simp add: int64_def Let_def)
  have "Unix (Add (tf (ticks c1)) (- MaxRefresh mw)) \<le> int64 origIat
          \<longleftrightarrow> Unix (tf (ticks c1)) - m \<le> \<lfloor>origIat\<rfloor>"
    using h by (auto simp only: fl refresh_window_seconds)
  also have "\<dots> \<longleftrightarrow> real_of_int (Unix (tf (ticks c1)) - m) \<le> origIat"
    by (simp only: le_floor_iff)
  also have "\<dots> \<longleftrightarrow> real_of_int (Unix (tf (ticks c1))) - origIat \<le> real_of_int m"
    by auto
  finally show "Unix (Add (tf (ticks c1)) (- MaxRefresh mw)) \<le> int64 origIat
               \<longleftrightarrow> real_of_int (Unix (tf (ticks c1))) - origIat \<le> real_of_int m" .
next
  note chk0 = CheckIfTokenExpire_verified[OF parse verified]
  note frame = ParseToken_frame[OF parse]
  { assume out: "int64 origIat < Unix (Add (tf (ticks c1)) (- MaxRefresh mw))"
    have "CheckIfTokenExpire E mw c =
        Inr ((None, Some ErrExpiredToken), c1\<lparr>ticks := Suc (ticks c1)\<rparr>)"
      using out by (simp add: chk0 checkOrigIat_float[OF iat tf])
    from RefreshToken_error[OF this]
    show "RefreshToken E mw c =
              Inr (([], timeNow E (Suc (ticks c1)), Some ErrExpiredToken),
                   c1\<lparr>ticks := Suc (Suc (ticks c1))\<rparr>)" by simp }
  fix alg s
  assume within: "Unix (Add (tf (ticks c1)) (- MaxRefresh mw)) \<le> int64 origIat"
    and sg: "GetSigningMethod (SigningAlgorithm mw) = Some alg \<and>
                signClaims E \<lparr>Raw = [], Method = Some alg, Claims = hp c1, Valid = False\<rparr>
                  ((heap c1 (Claims tok))
                     (''exp'' \<mapsto> VInt (Unix (Add (tf (Suc (ticks c1))) (Timeout mw))),
                      ''orig_iat'' \<mapsto> VInt (Unix (tf (Suc (Suc (ticks c1)))))))
                  (if usingPublicKeyAlgo mw then RSAPrivateKey (privKey mw) else HMACKey (Key mw))
                = Inr s"
  define c2 where "c2 = c1\<lparr>ticks := Suc (ticks c1)\<rparr>"
  define c7 where "c7 = c2\<lparr>hp := Suc (hp c2), ticks := Suc (Suc (ticks c2)),
                heap := (heap c2)(hp c2 :=
                  (heap c2 (Claims tok))(''exp'' \<mapsto> VInt (Unix (Add (tf (ticks c2)) (Timeout mw))),
                              ''orig_iat'' \<mapsto> VInt (Unix (tf (Suc (ticks c2))))))\<rparr>"
  have chk: "CheckIfTokenExpire E mw c = Inr ((Some (Claims tok), None), c2)"
    using within by (simp add: chk0 checkOrigIat_float[OF iat tf] c2_def)
  have fresh: "Claims tok \<noteq> hp c2" using frame by (simp add: c2_def)
  have sign: "signedString E mw \<lparr>Raw = [], Method = Some alg, Claims = hp c2, Valid = False\<rparr> c7
      = Inr s"
    using sg by (auto simp: signedString_def c7_def c2_def split: if_splits)
  from RefreshToken_checked[OF chk fresh tf conjunct1[OF sg] c7_def sign]
  obtain c8 where c8: "RefreshToken E mw c = Inr ((s, Add (tf (ticks c2)) (Timeout mw), None), c8)"
    "heap c8 = heap c7" by blast
  have "RefreshToken E mw c = Inr ((s, Add (tf (Suc (ticks c1))) (Timeout mw), None), c8)"
    using c8(1) by (simp add: c2_def)
  moreover have "heap c8 (hp c1) ''exp'' =
      Some (VInt (Unix (Add (tf (Suc (ticks c1))) (Timeout mw))))"
    by (simp add: c8(2) c7_def c2_def)
  moreover have "heap c8 (hp c1) ''orig_iat'' = Some (VInt (Unix (tf (Suc (Suc (ticks c1))))))"
    by (simp add: c8(2) c7_def c2_def)
  ultimately show "\<exists>c'. RefreshToken E mw c =
                       Inr ((s, Add (tf (Suc (ticks c1))) (Timeout mw), None), c') \<and>
                     heap c' (hp c1) ''exp'' =
                       Some (VInt (Unix (Add (tf (Suc (ticks c1))) (Timeout mw)))) \<and>
                     heap c' (hp c1) ''orig_iat'' =
                       Some (VInt (Unix (tf (Suc (Suc (ticks c1))))))"
    by blast
qed


lemma ParseToken_exMw_old:
  "ParseToken exEnv exMw (withAuthorization ''Bearer old'' exRequest) =
     Inr ((Some \<lparr>Raw = ''old'', Method = Some ''HS256'', Claims = 0, Valid = False\<rparr>,
           Some (ValidationError None ''Token is expired'' ValidationErrorExpired)),
          withAuthorization ''Bearer old'' exRequest
            \<lparr>Keys := [''JWT_TOKEN'' \<mapsto> VString ''old''],
             heap := (\<lambda>r. Map.empty)(0 := exClaims(''exp'' \<mapsto> VFloat 1400)), hp := 1\<rparr>)"
  by (simp add: exMw_eq eval_parse)

theorem RefreshToken_window_witness:
  "(\<exists>c'. RefreshToken exEnv exMwRefresh (withAuthorization ''Bearer old'' exRequest) =
            Inr ((''signed'', 5100000000001, None), c') \<and>
          heap c' 1 ''exp'' = Some (VInt 5100) \<and>
          heap c' 1 ''orig_iat'' = Some (VInt 1500)) \<and>
   RefreshToken exEnv exMw (withAuthorization ''Bearer old'' exRequest) =
     Inr (([], 1500000000001, Some ErrExpiredToken),
          withAuthorization ''Bearer old'' exRequest
            \<lparr>Keys := [''JWT_TOKEN'' \<mapsto> VString ''old''],
             heap := (\<lambda>r. Map.empty)(0 := exClaims(''exp'' \<mapsto> VFloat 1400)), hp := 1,
             ticks := 2\<rparr>)"
proof -
  let ?c1 = "withAuthorization ''Bearer old'' exRequest
            \<lparr>Keys := [''JWT_TOKEN'' \<mapsto> VString ''old''],
             heap := (\<lambda>r. Map.empty)(0 := exClaims(''exp'' \<mapsto> VFloat 1400)), hp := 1\<rparr>"
  let ?tok = "\<lparr>Raw = ''old'', Method = Some ''HS256'', Claims = 0, Valid = False\<rparr>"
  let ?er = "Some (ValidationError None ''Token is expired'' ValidationErrorExpired)"
  have ver: "?er = None \<or> (\<exists>e. ?er = Some e \<and> onlyExpired e)"
    by (simp add: onlyExpired_def)
  have iat: "heap ?c1 (Claims ?tok) ''orig_iat'' = Some (VFloat 1000)"
    by (simp add: exClaims_def)
  have c1: "ticks (withAuthorization ''Bearer old'' exRequest) = 0" "hp ?c1 = 1"
    by (simp_all add: withAuthorization_def exRequest_def)
  have tfR: "TimeFunc exMwRefresh = Some (timeNow exEnv)"
    and tf: "TimeFunc exMw = Some (timeNow exEnv)"
    by (simp_all add: exMwRefresh_def exMw_eq)
  have now: "\<And>n. timeNow exEnv n = 1500000000000 + int n" by (simp add: exEnv_def)
  have cfgR: "MaxRefresh exMwRefresh = 600000000000" "Timeout exMwRefresh = Hour"
    "GetSigningMethod (SigningAlgorithm exMwRefresh) = Some ''HS256''"
    by (simp_all add: exMwRefresh_def exMw_eq GetSigningMethod_def signingMethods_def)
  have cfg: "MaxRefresh exMw = 0" by (simp add: exMw_eq)
  have sg: "\<And>t cl k. signClaims exEnv t cl k = Inr ''signed''" by (simp add: exEnv_def)
  have rng: "real_of_int MinInt64 \<le> 1000 \<and> (1000::real) < real_of_int MaxInt64 + 1"
    by (simp add: MinInt64_def MaxInt64_def)
  have a: "\<exists>c'. RefreshToken exEnv exMwRefresh (withAuthorization ''Bearer old'' exRequest) =
            Inr ((''signed'', 5100000000001, None), c') \<and>
          heap c' 1 ''exp'' = Some (VInt 5100) \<and>
          heap c' 1 ''orig_iat'' = Some (VInt 1500)"
    using RefreshToken_window[OF ParseToken_exMwRefresh_old ver iat tfR rng, THEN conjunct1,
            rule_format, of "''HS256''" "''signed''"]
    by (simp add: c1 now cfgR sg Unix_def Add_def int64_eval Hour_def)
  have b: "RefreshToken exEnv exMw (withAuthorization ''Bearer old'' exRequest) =
     Inr (([], 1500000000001, Some ErrExpiredToken), ?c1\<lparr>ticks := 2\<rparr>)"
    using RefreshToken_window[OF ParseToken_exMw_old ver iat tf rng, THEN conjunct2, THEN conjunct1]
    by (simp add: c1 now cfg Unix_def Add_def int64_eval)
  from a b show ?thesis by simp
qed

lemma ParseToken_exMwHalfSecond_good:
  "ParseToken exEnv exMwHalfSecond (withAuthorization ''Bearer good'' exRequest) =
     Inr ((Some \<lparr>Raw = ''good'', Method = Some ''HS256'', Claims = 0, Valid = True\<rparr>, None),
          withAuthorization ''Bearer good'' exRequest
            \<lparr>Keys := [''JWT_TOKEN'' \<mapsto> VString ''good''],
             heap := (\<lambda>r. Map.empty)(0 := exClaims), hp := 1\<rparr>)"
  by (simp add: exMwHalfSecond_def exMw_eq eval_parse)

lemma RefreshToken_exMwHalfSecond_good:
  "\<exists>c'. RefreshToken exEnv exMwHalfSecond (withAuthorization ''Bearer good'' exRequest) =
          Inr ((''signed'', 4602000000000, None), c')"
proof -
  let ?c1 = "withAuthorization ''Bearer good'' exRequest
            \<lparr>Keys := [''JWT_TOKEN'' \<mapsto> VString ''good''],
             heap := (\<lambda>r. Map.empty)(0 := exClaims), hp := 1\<rparr>"
  let ?tok = "\<lparr>Raw = ''good'', Method = Some ''HS256'', Claims = 0, Valid = True\<rparr>"
  have ver: "(None :: err option) = None \<or> (\<exists>e. (None :: err option) = Some e \<and> onlyExpired e)"
    by simp
  have iat: "heap ?c1 (Claims ?tok) ''orig_iat'' = Some (VFloat 1000)"
    by (simp add: exClaims_def)
  have tf: "TimeFunc exMwHalfSecond = Some (\<lambda>n. 1002000000000)"
    by (simp add: exMwHalfSecond_def)
  have alg: "GetSigningMethod (SigningAlgorithm exMwHalfSecond) = Some ''HS256''"
    by (simp add: exMwHalfSecond_def exMw_eq GetSigningMethod_def signingMethods_def)
  have chk: "CheckIfTokenExpire exEnv exMwHalfSecond (withAuthorization ''Bearer good'' exRequest)
      = Inr ((Some (Claims ?tok), None), ?c1\<lparr>ticks := Suc (ticks ?c1)\<rparr>)"
    unfolding CheckIfTokenExpire_verified[OF ParseToken_exMwHalfSecond_good ver]
      checkOrigIat_float[OF iat tf]
    by (simp add: exMwHalfSecond_def int64_eval Unix_def Add_def)
  have fresh: "Claims ?tok \<noteq> hp (?c1\<lparr>ticks := Suc (ticks ?c1)\<rparr>)" by simp
  have sign: "\<And>t c. signedString exEnv exMwHalfSecond t c = Inr ''signed''"
    by (simp add: signedString_def exEnv_def)
  from RefreshToken_checked[OF chk fresh tf alg refl sign]
  show ?thesis
    by (auto simp: exMwHalfSecond_def exMw_eq Add_def Hour_def)
qed

text \<open>
  The claim as the specification states it fails: with a \<open>MaxRefresh\<close> of one and a
  half seconds, at second 1002, a token issued at second 1000 is two seconds old,
  which is more than \<open>MaxRefresh\<close>, and its refresh succeeds: the code compares
  \<open>orig_iat\<close> with the Unix second of \<open>now - MaxRefresh\<close>, which is 1000.
\<close>

theorem RefreshToken_window_counterexample:
  "MaxRefresh exMwHalfSecond = 1500000000 \<and>
   the (TimeFunc exMwHalfSecond) 0 = 1002000000000 \<and>
   exClaims ''orig_iat'' = Some (VFloat 1000) \<and>
   MaxRefresh exMwHalfSecond < 1002000000000 - 1000 * 1000000000 \<and>
   map_sum id fst (RefreshToken exEnv exMwHalfSecond (withAuthorization ''Bearer good'' exRequest))
     = Inr (''signed'', 4602000000000, None)"
proof -
  from RefreshToken_exMwHalfSecond_good obtain c' where
    "RefreshToken exEnv exMwHalfSecond (withAuthorization ''Bearer good'' exRequest) =
          Inr ((''signed'', 4602000000000, None), c')" by blast
  then show ?thesis
    by (simp add: exMwHalfSecond_def exClaims_def)
qed

text \<open>
  Claim C6. After a successful refresh the new token has a claim map of its own
  (a fresh reference, not that of the presented token); it holds every claim of the
  presented token with its value, except \<open>exp\<close> and \<open>orig_iat\<close>, which hold the
  second of the returned expiry and the second of the next clock reading; the
  returned string is what the library signs for that map; and the claim map of the
  presented token is as it was after verification.
\<close>

theorem RefreshToken_claims_frame:
  assumes parse: "ParseToken E mw c = Inr ((Some tok, er), c1)"
    and ok: "RefreshToken E mw c = Inr ((s, expire, None), c')"
  shows "hp c1 \<noteq> Claims tok \<and>
         (\<forall>k. k \<noteq> ''exp'' \<and> k \<noteq> ''orig_iat'' \<longrightarrow> heap c' (hp c1) k = heap c1 (Claims tok) k) \<and>
         heap c' (hp c1) ''exp'' = Some (VInt (Unix expire)) \<and>
         (\<exists>tf. TimeFunc mw = Some tf \<and> expire = Add (tf (Suc (ticks c1))) (Timeout mw) \<and>
               heap c' (hp c1) ''orig_iat'' = Some (VInt (Unix (tf (Suc (Suc (ticks c1))))))) \<and>
         signedString E mw
           \<lparr>Raw = [], Method = GetSigningMethod (SigningAlgorithm mw), Claims = hp c1, Valid = False\<rparr>
           c' = Inr s \<and>
         heap c' (Claims tok) = heap c1 (Claims tok)"
proof -
  note frame = ParseToken_frame[OF parse]
  from ok obtain cl c2 where chk: "CheckIfTokenExpire E mw c = Inr ((cl, None), c2)"
    by (auto simp: RefreshToken_def time_Now_def Let_def split: sum.splits option.splits prod.splits)
  have chk': "checkOrigIat mw (Some tok) c1 = Inr ((cl, None), c2)"
    using chk parse by (auto simp: CheckIfTokenExpire_def split: option.splits if_splits)
  then obtain f where f: "heap c1 (Claims tok) ''orig_iat'' = Some (VFloat f)"
    by (auto simp: checkOrigIat_def mapGet_def split: option.splits jvalue.splits)
  from chk' obtain tf where tf: "TimeFunc mw = Some tf"
    by (auto simp: checkOrigIat_def mapGet_def callTimeFunc_def
             split: option.splits jvalue.splits sum.splits)
  define c2' where "c2' = c1\<lparr>ticks := Suc (ticks c1)\<rparr>"
  from chk' have cl: "cl = Some (Claims tok)" and c2: "c2 = c2'"
    by (auto simp: checkOrigIat_float[OF f tf] c2'_def split: if_splits)
  from ok chk obtain alg where alg: "GetSigningMethod (SigningAlgorithm mw) = Some alg"
    by (auto simp: RefreshToken_def jwt_New_def split: option.splits)
  define c7 where "c7 = c2'\<lparr>hp := Suc (hp c2'), ticks := Suc (Suc (ticks c2')),
                heap := (heap c2')(hp c2' :=
                  (heap c2' (Claims tok))(''exp'' \<mapsto> VInt (Unix (Add (tf (ticks c2')) (Timeout mw))),
                              ''orig_iat'' \<mapsto> VInt (Unix (tf (Suc (ticks c2'))))))\<rparr>"
  let ?newTok = "\<lparr>Raw = [], Method = Some alg, Claims = hp c2', Valid = False\<rparr>"
  have fresh: "Claims tok \<noteq> hp c2'" using frame by (simp add: c2'_def)
  have chk2: "CheckIfTokenExpire E mw c = Inr ((Some (Claims tok), None), c2')"
    using chk cl c2 by simp
  obtain s' where sign: "signedString E mw ?newTok c7 = Inr s'"
  proof (cases "signedString E mw ?newTok c7")
    case (Inr s')
    then show ?thesis by (rule that)
  next
    case (Inl e)
    then have "\<exists>t c8. RefreshToken E mw c = Inr (([], t, Some e), c8)"
      using fresh
      by (simp add: RefreshToken_def chk2 jwt_New_def alg newMap_def mapCopyInto_def
            callTimeFunc_def tf mapSet_def time_Now_def c7_def Let_def)
    with ok show ?thesis by auto
  qed
  from RefreshToken_checked[OF chk2 fresh tf alg c7_def sign]
  obtain c8 where c8: "RefreshToken E mw c = Inr ((s', Add (tf (ticks c2')) (Timeout mw), None), c8)"
    "heap c8 = heap c7" by blast
  with ok have eqs: "s = s'" "expire = Add (tf (Suc (ticks c1))) (Timeout mw)" "c' = c8"
    by (simp_all add: c2'_def)
  have h: "heap c' = heap c7" using eqs c8 by simp
  have hpc: "hp c2' = hp c1" by (simp add: c2'_def)
  show ?thesis
  proof (intro conjI allI impI)
    show "hp c1 \<noteq> Claims tok" using frame by simp
    show "heap c' (hp c1) ''exp'' = Some (VInt (Unix expire))"
      by (simp add: h c7_def c2'_def eqs(2))
    show "\<exists>tf. TimeFunc mw = Some tf \<and> expire = Add (tf (Suc (ticks c1))) (Timeout mw) \<and>
               heap c' (hp c1) ''orig_iat'' = Some (VInt (Unix (tf (Suc (Suc (ticks c1))))))"
      using tf eqs(2) by (simp add: h c7_def c2'_def)
    show "signedString E mw
           \<lparr>Raw = [], Method = GetSigningMethod (SigningAlgorithm mw), Claims = hp c1, Valid = False\<rparr>
           c' = Inr s"
      using sign signedString_heap[OF h] by (simp add: alg hpc eqs(1))
    show "heap c' (Claims tok) = heap c1 (Claims tok)"
      using fresh by (simp add: h c7_def c2'_def)
  next
    fix k assume "k \<noteq> ''exp'' \<and> k \<noteq> ''orig_iat''"
    then show "heap c' (hp c1) k = heap c1 (Claims tok) k"
      by (simp add: h c7_def c2'_def)
  qed
qed


lemma RefreshToken_exMwRefresh_old:
  "\<exists>c'. RefreshToken exEnv exMwRefresh (withAuthorization ''Bearer old'' exRequest) =
          Inr ((''signed'', 5100000000001, None), c')"
proof -
  let ?c1 = "withAuthorization ''Bearer old'' exRequest
            \<lparr>Keys := [''JWT_TOKEN'' \<mapsto> VString ''old''],
             heap := (\<lambda>r. Map.empty)(0 := exClaims(''exp'' \<mapsto> VFloat 1400)), hp := 1\<rparr>"
  let ?tok = "\<lparr>Raw = ''old'', Method = Some ''HS256'', Claims = 0, Valid = False\<rparr>"
  let ?er = "Some (ValidationError None ''Token is expired'' ValidationErrorExpired)"
  have ver: "?er = None \<or> (\<exists>e. ?er = Some e \<and> onlyExpired e)"
    by (simp add: onlyExpired_def)
  have iat: "heap ?c1 (Claims ?tok) ''orig_iat'' = Some (VFloat 1000)"
    by (simp add: exClaims_def)
  have tf: "TimeFunc exMwRefresh = Some (timeNow exEnv)"
    by (simp add: exMwRefresh_def exMw_eq)
  have alg: "GetSigningMethod (SigningAlgorithm exMwRefresh) = Some ''HS256''"
    by (simp add: exMwRefresh_def exMw_eq GetSigningMethod_def signingMethods_def)
  have t0: "ticks (withAuthorization ''Bearer old'' exRequest) = 0"
    by (simp add: withAuthorization_def exRequest_def)
  have chk: "CheckIfTokenExpire exEnv exMwRefresh (withAuthorization ''Bearer old'' exRequest)
      = Inr ((Some (Claims ?tok), None), ?c1\<lparr>ticks := Suc (ticks ?c1)\<rparr>)"
    unfolding CheckIfTokenExpire_verified[OF ParseToken_exMwRefresh_old ver]
      checkOrigIat_float[OF iat tf]
    by (simp add: exMwRefresh_def exMw_eq exEnv_def int64_eval Unix_def Add_def t0)
  have fresh: "Claims ?tok \<noteq> hp (?c1\<lparr>ticks := Suc (ticks ?c1)\<rparr>)" by simp
  have sign: "\<And>t c. signedString exEnv exMwRefresh t c = Inr ''signed''"
    by (simp add: signedString_def exEnv_def)
  from RefreshToken_checked[OF chk fresh tf alg refl sign]
  show ?thesis
    by (auto simp: exMwRefresh_def exMw_eq exEnv_def Add_def Hour_def t0)
qed

theorem RefreshToken_claims_frame_witness:
  "\<exists>c'. RefreshToken exEnv exMwRefresh (withAuthorization ''Bearer old'' exRequest) =
          Inr ((''signed'', 5100000000001, None), c') \<and>
        heap c' 1 ''identity'' = Some (VString ''alice'') \<and>
        heap c' 1 ''exp'' = Some (VInt 5100) \<and>
        heap c' 0 = exClaims(''exp'' \<mapsto> VFloat 1400)"
proof -
  from RefreshToken_exMwRefresh_old obtain c' where
    ok: "RefreshToken exEnv exMwRefresh (withAuthorization ''Bearer old'' exRequest) =
          Inr ((''signed'', 5100000000001, None), c')" by blast
  from RefreshToken_claims_frame[OF ParseToken_exMwRefresh_old ok]
  have "heap c' 1 ''identity'' = Some (VString ''alice'') \<and>
        heap c' 1 ''exp'' = Some (VInt 5100) \<and>
        heap c' 0 = exClaims(''exp'' \<mapsto> VFloat 1400)"
    by (simp add: exClaims_def Unix_def)
  with ok show ?thesis by blast
qed


subsection \<open>The signing algorithm of a presented token\<close>

lemma lookupLoop_head_name:
  "TokenHeadName mw' = TokenHeadName mw \<Longrightarrow>
   lookupLoop mw' c ms te = lookupLoop mw c ms te"
  by (induction ms arbitrary: te) (simp_all add: jwtFrom_defs Let_def)

lemma ParseToken_default_mismatch:
  assumes loc: "locate mw c = Inr (s, None)"
    and dec: "decodeSegments E s = Inr (Some a, cl)"
    and reg: "a \<in> set signingMethods"
    and ne: "a \<noteq> SigningAlgorithm mw"
    and kf: "KeyFunc mw = None"
  shows "ParseToken E mw c =
     Inr ((Some \<lparr>Raw = s, Method = Some a, Claims = hp c, Valid = False\<rparr>,
           Some (ValidationError (Some ErrInvalidSigningAlgorithm) [] ValidationErrorUnverifiable)),
          c\<lparr>heap := (heap c)(hp c := cl), hp := Suc (hp c)\<rparr>)"
proof -
  have m: "GetSigningMethod a = Some a" using reg by (simp add: GetSigningMethod_def)
  have d: "GetSigningMethod (SigningAlgorithm mw) \<noteq> Some a"
    using ne by (simp add: GetSigningMethod_def)
  show ?thesis
    using d
    by (simp add: ParseToken_def loc kf jwt_Parse_def ParseUnverified_def dec m newMap_def
          defaultKeyFunc_def wrapKeyFuncError_def Let_def)
qed

text \<open>
  Claim C7, as the code has it. When no \<open>KeyFunc\<close> is set and the located token
  decodes with a signing method the library registers that is not the configured
  one, the verification fails with the validation error that wraps
  \<open>ErrInvalidSigningAlgorithm\<close> and carries its message. When a \<open>KeyFunc\<close> is set, the
  library is run with that function alone: the result does not depend on the
  configured algorithm, key or public key. A token whose header declares an
  algorithm the library does not register never reaches the key function: the
  library refuses it as unavailable, with or without a \<open>KeyFunc\<close>.
\<close>

theorem ParseToken_signing_algorithm:
  "(\<forall>s a cl. locate mw c = Inr (s, None) \<and> decodeSegments E s = Inr (Some a, cl) \<and>
       a \<in> set signingMethods \<and> a \<noteq> SigningAlgorithm mw \<and> KeyFunc mw = None \<longrightarrow>
       (\<exists>tok c1. ParseToken E mw c =
            Inr ((Some tok, Some (ValidationError (Some ErrInvalidSigningAlgorithm) []
                                    ValidationErrorUnverifiable)), c1) \<and>
          Method tok = Some a) \<and>
       Error (ValidationError (Some ErrInvalidSigningAlgorithm) [] ValidationErrorUnverifiable)
         = ''invalid signing algorithm'') \<and>
   (\<forall>kf s. KeyFunc mw = Some kf \<and> locate mw c = Inr (s, None) \<longrightarrow>
       ParseToken E mw c = Inr (jwt_Parse E s (\<lambda>t c'. (kf t, c')) c)) \<and>
   (\<forall>kf alg k p. KeyFunc mw = Some kf \<longrightarrow>
       ParseToken E (mw\<lparr>SigningAlgorithm := alg, Key := k, pubKey := p\<rparr>) c = ParseToken E mw c) \<and>
   (\<forall>s a cl. locate mw c = Inr (s, None) \<and> decodeSegments E s = Inr (Some a, cl) \<and>
       a \<notin> set signingMethods \<longrightarrow>
       ParseToken E mw c =
         Inr ((Some \<lparr>Raw = s, Method = None, Claims = hp c, Valid = False\<rparr>,
               Some (ValidationError None ''signing method (alg) is unavailable.''
                       ValidationErrorUnverifiable)),
              c\<lparr>heap := (heap c)(hp c := cl), hp := Suc (hp c)\<rparr>))"
proof (intro conjI allI impI)
  fix s a cl
  assume h: "locate mw c = Inr (s, None) \<and> decodeSegments E s = Inr (Some a, cl) \<and>
       a \<in> set signingMethods \<and> a \<noteq> SigningAlgorithm mw \<and> KeyFunc mw = None"
  then have "ParseToken E mw c =
     Inr ((Some \<lparr>Raw = s, Method = Some a, Claims = hp c, Valid = False\<rparr>,
           Some (ValidationError (Some ErrInvalidSigningAlgorithm) [] ValidationErrorUnverifiable)),
          c\<lparr>heap := (heap c)(hp c := cl), hp := Suc (hp c)\<rparr>)"
    by (intro ParseToken_default_mismatch) simp_all
  then show "\<exists>tok c1. ParseToken E mw c =
            Inr ((Some tok, Some (ValidationError (Some ErrInvalidSigningAlgorithm) []
                                    ValidationErrorUnverifiable)), c1) \<and>
          Method tok = Some a"
    by simp
  show "Error (ValidationError (Some ErrInvalidSigningAlgorithm) [] ValidationErrorUnverifiable)
         = ''invalid signing algorithm''" by simp
next
  fix kf s
  assume "KeyFunc mw = Some kf \<and> locate mw c = Inr (s, None)"
  then show "ParseToken E mw c = Inr (jwt_Parse E s (\<lambda>t c'. (kf t, c')) c)"
    by (simp add: ParseToken_def)
next
  fix kf alg k p
  assume kf: "KeyFunc mw = Some kf"
  have "lookupLoop (mw\<lparr>SigningAlgorithm := alg, Key := k, pubKey := p\<rparr>) c
          (Split (TokenLookup mw) (CHR '','')) ([], None) = locate mw c"
    by (rule lookupLoop_head_name) simp
  then show "ParseToken E (mw\<lparr>SigningAlgorithm := alg, Key := k, pubKey := p\<rparr>) c = ParseToken E mw c"
    using kf by (simp add: ParseToken_def split: sum.splits option.splits prod.splits)
next
  fix s a cl
  assume "locate mw c = Inr (s, None) \<and> decodeSegments E s = Inr (Some a, cl) \<and>
       a \<notin> set signingMethods"
  then have loc: "locate mw c = Inr (s, None)" and dec: "decodeSegments E s = Inr (Some a, cl)"
    and un: "GetSigningMethod a = None"
    by (simp_all add: GetSigningMethod_def)
  have pu: "ParseUnverified E s c =
      ((Some \<lparr>Raw = s, Method = None, Claims = hp c, Valid = False\<rparr>,
        Some (ValidationError None ''signing method (alg) is unavailable.''
                ValidationErrorUnverifiable)),
       c\<lparr>heap := (heap c)(hp c := cl), hp := Suc (hp c)\<rparr>)"
    by (simp add: ParseUnverified_def dec un newMap_def Let_def)
  show "ParseToken E mw c =
         Inr ((Some \<lparr>Raw = s, Method = None, Claims = hp c, Valid = False\<rparr>,
               Some (ValidationError None ''signing method (alg) is unavailable.''
                       ValidationErrorUnverifiable)),
              c\<lparr>heap := (heap c)(hp c := cl), hp := Suc (hp c)\<rparr>)"
    by (cases "KeyFunc mw") (simp_all add: ParseToken_def loc jwt_Parse_def pu)
qed

lemma locate_exMw_foo:
  "locate exMw (withAuthorization ''Bearer foo'' exRequest) = Inr (''foo'', None)"
  by (simp add: exMw_eq exRequest_def withAuthorization_def TrimSpace_def isSpace_def
        jwtFromHeader_def SplitN2_def Let_def)

lemma locate_exMwKeyFunc_rs:
  "locate exMwKeyFunc (withAuthorization ''Bearer rs'' exRequest) = Inr (''rs'', None)"
  using locate_exMw_rs lookupLoop_head_name[of exMwKeyFunc exMw]
  by (simp add: exMwKeyFunc_def)

theorem ParseToken_signing_algorithm_witness:
  "(\<exists>tok c1. ParseToken exEnv exMw (withAuthorization ''Bearer rs'' exRequest) =
        Inr ((Some tok, Some (ValidationError (Some ErrInvalidSigningAlgorithm) []
                                ValidationErrorUnverifiable)), c1) \<and>
      Method tok = Some ''RS256'') \<and>
   SigningAlgorithm exMwKeyFunc = ''HS256'' \<and>
   map_sum id fst (ParseToken exEnv exMwKeyFunc (withAuthorization ''Bearer rs'' exRequest)) =
     Inr (Some \<lparr>Raw = ''rs'', Method = Some ''RS256'', Claims = 0, Valid = True\<rparr>, None) \<and>
   map_sum id fst (ParseToken exEnv exMwKeyFunc (withAuthorization ''Bearer foo'' exRequest)) =
     Inr (Some \<lparr>Raw = ''foo'', Method = None, Claims = 0, Valid = False\<rparr>,
          Some (ValidationError None ''signing method (alg) is unavailable.''
                  ValidationErrorUnverifiable))"
proof -
  note T = ParseToken_signing_algorithm[of _ "withAuthorization ''Bearer rs'' exRequest" exEnv]
  have a: "\<exists>tok c1. ParseToken exEnv exMw (withAuthorization ''Bearer rs'' exRequest) =
        Inr ((Some tok, Some (ValidationError (Some ErrInvalidSigningAlgorithm) []
                                ValidationErrorUnverifiable)), c1) \<and>
      Method tok = Some ''RS256''"
    using T[of exMw, THEN conjunct1, rule_format, of "''rs''" "''RS256''" exClaims] locate_exMw_rs
    by (simp add: exEnv_def signingMethods_def exMw_eq)
  have kf: "KeyFunc exMwKeyFunc = Some (\<lambda>t. Inr (HMACKey (Some ''secret'')))"
    by (simp add: exMwKeyFunc_def)
  have "ParseToken exEnv exMwKeyFunc (withAuthorization ''Bearer rs'' exRequest) =
      Inr (jwt_Parse exEnv ''rs'' (\<lambda>t c'. (Inr (HMACKey (Some ''secret'')), c'))
             (withAuthorization ''Bearer rs'' exRequest))"
    using T[of exMwKeyFunc, THEN conjunct2, THEN conjunct1, rule_format,
            of "\<lambda>t. Inr (HMACKey (Some ''secret''))" "''rs''"] kf locate_exMwKeyFunc_rs
    by simp
  then have b: "map_sum id fst (ParseToken exEnv exMwKeyFunc (withAuthorization ''Bearer rs'' exRequest)) =
     Inr (Some \<lparr>Raw = ''rs'', Method = Some ''RS256'', Claims = 0, Valid = True\<rparr>, None)"
    by (simp add: jwt_Parse_def ParseUnverified_def exEnv_def newMap_def GetSigningMethod_def
          signingMethods_def claimsError_def exClaims_def Let_def withAuthorization_def
          exRequest_def)
  have c: "SigningAlgorithm exMwKeyFunc = ''HS256''" by (simp add: exMwKeyFunc_def exMw_eq)
  have "locate exMwKeyFunc (withAuthorization ''Bearer foo'' exRequest) = Inr (''foo'', None)
        \<and> decodeSegments exEnv ''foo'' = Inr (Some ''FOO'', exClaims)
        \<and> ''FOO'' \<notin> set signingMethods"
    using locate_exMw_foo lookupLoop_head_name[of exMwKeyFunc exMw]
    by (simp add: exMwKeyFunc_def exEnv_def signingMethods_def)
  from ParseToken_signing_algorithm[of exMwKeyFunc "withAuthorization ''Bearer foo'' exRequest"
         exEnv, THEN conjunct2, THEN conjunct2, THEN conjunct2, rule_format, OF this]
  have d: "map_sum id fst (ParseToken exEnv exMwKeyFunc (withAuthorization ''Bearer foo'' exRequest)) =
     Inr (Some \<lparr>Raw = ''foo'', Method = None, Claims = 0, Valid = False\<rparr>,
          Some (ValidationError None ''signing method (alg) is unavailable.''
                  ValidationErrorUnverifiable))"
    by (simp add: withAuthorization_def exRequest_def)
  from a b c d show ?thesis by simp
qed

text \<open>
  The claim as the specification states it fails: the header of the token \<open>foo\<close>
  declares the algorithm \<open>FOO\<close>, which is not the configured \<open>HS256\<close>; no \<open>KeyFunc\<close>
  is set; the verification fails with the library's error for an unavailable
  signing method, whose message is not that of \<open>ErrInvalidSigningAlgorithm\<close>.
\<close>

theorem ParseToken_unregistered_algorithm_counterexample:
  "KeyFunc exMw = None \<and> SigningAlgorithm exMw = ''HS256'' \<and>
   locate exMw (withAuthorization ''Bearer foo'' exRequest) = Inr (''foo'', None) \<and>
   decodeSegments exEnv ''foo'' = Inr (Some ''FOO'', exClaims) \<and>
   map_sum id fst (ParseToken exEnv exMw (withAuthorization ''Bearer foo'' exRequest)) =
     Inr (Some \<lparr>Raw = ''foo'', Method = None, Claims = 0, Valid = False\<rparr>,
          Some (ValidationError None ''signing method (alg) is unavailable.''
                  ValidationErrorUnverifiable)) \<and>
   Error (ValidationError None ''signing method (alg) is unavailable.''
            ValidationErrorUnverifiable) \<noteq> Error ErrInvalidSigningAlgorithm \<and>
   map_sum id written (middlewareImpl exEnv exMw (withAuthorization ''Bearer foo'' exRequest)) =
     Inr [(401, [(''code'', VInt 401),
                 (''message'', VString ''signing method (alg) is unavailable.'')])]"
proof -
  have p: "ParseToken exEnv exMw (withAuthorization ''Bearer foo'' exRequest) =
      Inr ((Some \<lparr>Raw = ''foo'', Method = None, Claims = 0, Valid = False\<rparr>,
            Some (ValidationError None ''signing method (alg) is unavailable.''
                    ValidationErrorUnverifiable)),
           withAuthorization ''Bearer foo'' exRequest
             \<lparr>heap := (\<lambda>r. Map.empty)(0 := exClaims), hp := 1\<rparr>)"
    by (simp add: exMw_eq eval_parse)
  have w0: "written (withAuthorization ''Bearer foo'' exRequest) = []"
    by (simp add: withAuthorization_def exRequest_def)
  have cfg: "KeyFunc exMw = None" "SigningAlgorithm exMw = ''HS256''"
    "decodeSegments exEnv ''foo'' = Inr (Some ''FOO'', exClaims)"
    by (simp_all add: exMw_eq exEnv_def)
  show ?thesis
    by (simp add: p cfg locate_exMw_foo middlewareImpl_error[OF p] unauthorizedErr_exMw_written w0)
qed


subsection \<open>Initialization\<close>

lemmas default_defs = defaultLookup_def defaultAlgorithm_def defaultTime_def
  defaultHeadName_def defaultAuthorizator_def defaultUnauthorized_def
  defaultLoginResponse_def defaultLogoutResponse_def defaultRefreshResponse_def
  defaultIdentity_def defaultStatusMessage_def defaultRealm_def defaultCookie_def

lemma default_KeyFunc:
  "KeyFunc (defaultLookup mw) = KeyFunc mw"
  "KeyFunc (defaultAlgorithm mw) = KeyFunc mw"
  "KeyFunc (defaultTime E mw) = KeyFunc mw"
  "KeyFunc (defaultHeadName mw) = KeyFunc mw"
  "KeyFunc (defaultAuthorizator mw) = KeyFunc mw"
  "KeyFunc (defaultUnauthorized mw) = KeyFunc mw"
  "KeyFunc (defaultLoginResponse E mw) = KeyFunc mw"
  "KeyFunc (defaultLogoutResponse mw) = KeyFunc mw"
  "KeyFunc (defaultRefreshResponse E mw) = KeyFunc mw"
  "KeyFunc (defaultIdentity mw) = KeyFunc mw"
  "KeyFunc (defaultStatusMessage mw) = KeyFunc mw"
  "KeyFunc (defaultRealm mw) = KeyFunc mw"
  "KeyFunc (defaultCookie mw) = KeyFunc mw"
  by (simp_all add: default_defs Let_def)

lemma default_Key:
  "Key (defaultLookup mw) = Key mw"
  "Key (defaultAlgorithm mw) = Key mw"
  "Key (defaultTime E mw) = Key mw"
  "Key (defaultHeadName mw) = Key mw"
  "Key (defaultAuthorizator mw) = Key mw"
  "Key (defaultUnauthorized mw) = Key mw"
  "Key (defaultLoginResponse E mw) = Key mw"
  "Key (defaultLogoutResponse mw) = Key mw"
  "Key (defaultRefreshResponse E mw) = Key mw"
  "Key (defaultIdentity mw) = Key mw"
  "Key (defaultStatusMessage mw) = Key mw"
  "Key (defaultRealm mw) = Key mw"
  "Key (defaultCookie mw) = Key mw"
  by (simp_all add: default_defs Let_def)

lemma default_SigningAlgorithm:
  "SigningAlgorithm (defaultLookup mw) = SigningAlgorithm mw"
  "SigningAlgorithm (defaultAlgorithm mw) =
     (if SigningAlgorithm mw = [] then ''HS256'' else SigningAlgorithm mw)"
  "SigningAlgorithm (defaultTime E mw) = SigningAlgorithm mw"
  "SigningAlgorithm (defaultHeadName mw) = SigningAlgorithm mw"
  "SigningAlgorithm (defaultAuthorizator mw) = SigningAlgorithm mw"
  "SigningAlgorithm (defaultUnauthorized mw) = SigningAlgorithm mw"
  "SigningAlgorithm (defaultLoginResponse E mw) = SigningAlgorithm mw"
  "SigningAlgorithm (defaultLogoutResponse mw) = SigningAlgorithm mw"
  "SigningAlgorithm (defaultRefreshResponse E mw) = SigningAlgorithm mw"
  "SigningAlgorithm (defaultIdentity mw) = SigningAlgorithm mw"
  "SigningAlgorithm (defaultStatusMessage mw) = SigningAlgorithm mw"
  "SigningAlgorithm (defaultRealm mw) = SigningAlgorithm mw"
  "SigningAlgorithm (defaultCookie mw) = SigningAlgorithm mw"
  by (simp_all add: default_defs Let_def)

lemma default_Authenticator_update:
  "defaultLookup (mw\<lparr>Authenticator := a\<rparr>) = (defaultLookup mw)\<lparr>Authenticator := a\<rparr>"
  "defaultAlgorithm (mw\<lparr>Authenticator := a\<rparr>) = (defaultAlgorithm mw)\<lparr>Authenticator := a\<rparr>"
  "defaultTime E (mw\<lparr>Authenticator := a\<rparr>) = (defaultTime E mw)\<lparr>Authenticator := a\<rparr>"
  "defaultHeadName (mw\<lparr>Authenticator := a\<rparr>) = (defaultHeadName mw)\<lparr>Authenticator := a\<rparr>"
  "defaultAuthorizator (mw\<lparr>Authenticator := a\<rparr>) = (defaultAuthorizator mw)\<lparr>Authenticator := a\<rparr>"
  "defaultUnauthorized (mw\<lparr>Authenticator := a\<rparr>) = (defaultUnauthorized mw)\<lparr>Authenticator := a\<rparr>"
  "defaultLoginResponse E (mw\<lparr>Authenticator := a\<rparr>)
     = (defaultLoginResponse E mw)\<lparr>Authenticator := a\<rparr>"
  "defaultLogoutResponse (mw\<lparr>Authenticator := a\<rparr>)
     = (defaultLogoutResponse mw)\<lparr>Authenticator := a\<rparr>"
  "defaultRefreshResponse E (mw\<lparr>Authenticator := a\<rparr>)
     = (defaultRefreshResponse E mw)\<lparr>Authenticator := a\<rparr>"
  "defaultIdentity (mw\<lparr>Authenticator := a\<rparr>) = (defaultIdentity mw)\<lparr>Authenticator := a\<rparr>"
  "defaultStatusMessage (mw\<lparr>Authenticator := a\<rparr>)
     = (defaultStatusMessage mw)\<lparr>Authenticator := a\<rparr>"
  "defaultRealm (mw\<lparr>Authenticator := a\<rparr>) = (defaultRealm mw)\<lparr>Authenticator := a\<rparr>"
  "defaultCookie (mw\<lparr>Authenticator := a\<rparr>) = (defaultCookie mw)\<lparr>Authenticator := a\<rparr>"
  by (simp_all add: default_defs Let_def)

lemma initDefaults_fields:
  "KeyFunc (initDefaults E mw) = KeyFunc mw"
  "Key (initDefaults E mw) = Key mw"
  "SigningAlgorithm (initDefaults E mw) =
     (if SigningAlgorithm mw = [] then ''HS256'' else SigningAlgorithm mw)"
  by (simp_all add: initDefaults_def default_KeyFunc default_Key default_SigningAlgorithm)

lemma initDefaults_Authenticator_update:
  "initDefaults E (mw\<lparr>Authenticator := a\<rparr>) = (initDefaults E mw)\<lparr>Authenticator := a\<rparr>"
  by (simp add: initDefaults_def default_Authenticator_update)

lemma readKeys_Authenticator_update:
  "readKeys E (mw\<lparr>Authenticator := a\<rparr>) =
     (fst (readKeys E mw)\<lparr>Authenticator := a\<rparr>, snd (readKeys E mw))"
  by (simp add: readKeys_def privateKey_def publicKey_def
      split: option.splits sum.splits prod.splits)

lemma MiddlewareInit_Authenticator_update:
  "MiddlewareInit E (mw\<lparr>Authenticator := a\<rparr>) =
     (fst (MiddlewareInit E mw)\<lparr>Authenticator := a\<rparr>, snd (MiddlewareInit E mw))"
  by (simp add: MiddlewareInit_def initDefaults_Authenticator_update
        readKeys_Authenticator_update usingPublicKeyAlgo_def Let_def)


text \<open>
  Claim C9, as the code has it. Initialization fails with \<open>ErrMissingSecretKey\<close> when
  no \<open>KeyFunc\<close> is set, the algorithm is not an RSA one and the key is nil. A missing
  \<open>Authenticator\<close> is not looked at by the initialization: its error does not depend
  on the \<open>Authenticator\<close>, which it leaves as it is; the missing callback is found at
  request time, where \<open>LoginHandler\<close> answers with status 500 and
  \<open>ErrMissingAuthenticatorFunc\<close>.
\<close>

theorem MiddlewareInit_checks_key_not_authenticator:
  "(KeyFunc mw = None \<and> SigningAlgorithm mw \<notin> {''RS256'', ''RS384'', ''RS512''} \<and> Key mw = None \<longrightarrow>
      snd (MiddlewareInit E mw) = Some ErrMissingSecretKey) \<and>
   snd (MiddlewareInit E (mw\<lparr>Authenticator := a\<rparr>)) = snd (MiddlewareInit E mw) \<and>
   Authenticator (fst (MiddlewareInit E (mw\<lparr>Authenticator := a\<rparr>))) = a \<and>
   (Authenticator mw = None \<longrightarrow>
      LoginHandler E mw c = unauthorizedErr mw c 500 ErrMissingAuthenticatorFunc)"
proof (intro conjI impI)
  assume "KeyFunc mw = None \<and> SigningAlgorithm mw \<notin> {''RS256'', ''RS384'', ''RS512''} \<and> Key mw = None"
  then show "snd (MiddlewareInit E mw) = Some ErrMissingSecretKey"
    by (simp add: MiddlewareInit_def initDefaults_fields usingPublicKeyAlgo_def Let_def)
next
  show "snd (MiddlewareInit E (mw\<lparr>Authenticator := a\<rparr>)) = snd (MiddlewareInit E mw)"
    by (simp add: MiddlewareInit_Authenticator_update)
  show "Authenticator (fst (MiddlewareInit E (mw\<lparr>Authenticator := a\<rparr>))) = a"
    by (simp add: MiddlewareInit_Authenticator_update)
next
  assume "Authenticator mw = None"
  then show "LoginHandler E mw c = unauthorizedErr mw c 500 ErrMissingAuthenticatorFunc"
    by (simp add: LoginHandler_def)
qed

lemma MiddlewareInit_exConfig: "MiddlewareInit exEnv exConfig = (exMw, None)"
proof -
  have "snd (MiddlewareInit exEnv exConfig) = None"
    by (simp add: MiddlewareInit_def initDefaults_fields usingPublicKeyAlgo_def Let_def exConfig_def)
  then show ?thesis by (simp add: exMw_def prod_eq_iff)
qed

theorem MiddlewareInit_checks_key_not_authenticator_witness:
  "snd (MiddlewareInit exEnv (exConfig\<lparr>Key := None\<rparr>)) = Some ErrMissingSecretKey \<and>
   Authenticator exMw = None \<and>
   map_sum id written (LoginHandler exEnv exMw exRequest) =
     Inr [(500, [(''code'', VInt 500),
                 (''message'', VString ''ginJWTMiddleware.Authenticator func is undefined'')])]"
proof -
  note T = MiddlewareInit_checks_key_not_authenticator
  have a: "snd (MiddlewareInit exEnv (exConfig\<lparr>Key := None\<rparr>)) = Some ErrMissingSecretKey"
    using T[of "exConfig\<lparr>Key := None\<rparr>" exEnv, THEN conjunct1]
    by (simp add: exConfig_def)
  have n: "Authenticator exMw = None" by (simp add: exMw_eq)
  have "LoginHandler exEnv exMw exRequest =
      unauthorizedErr exMw exRequest 500 ErrMissingAuthenticatorFunc"
    using T[of exMw exEnv None exRequest, THEN conjunct2, THEN conjunct2, THEN conjunct2] n
    by simp
  then have b: "map_sum id written (LoginHandler exEnv exMw exRequest) =
     Inr [(500, [(''code'', VInt 500),
                 (''message'', VString ''ginJWTMiddleware.Authenticator func is undefined'')])]"
    by (simp add: unauthorizedErr_exMw_written exRequest_def)
  from a b n show ?thesis by simp
qed

text \<open>
  The claim as the specification states it fails: the configuration \<open>exConfig\<close> has no
  \<open>Authenticator\<close>, and its initialization succeeds.
\<close>

theorem MiddlewareInit_missing_authenticator_counterexample:
  "Authenticator exConfig = None \<and> snd (MiddlewareInit exEnv exConfig) = None \<and>
   New exEnv exConfig = Inr exMw"
  by (simp add: MiddlewareInit_exConfig New_def) (simp add: exConfig_def)


subsection \<open>The middleware on an exempt path\<close>

lemma GetClaimsFromJWT_reqPath:
  assumes "GetClaimsFromJWT E mw c = Inr ((Some r, None), c1)"
  shows "reqPath c1 = reqPath c"
proof -
  from assms obtain tok c0 where p: "ParseToken E mw c = Inr ((Some tok, None), c0)"
    by (auto simp: GetClaimsFromJWT_def split: sum.splits option.splits prod.splits)
  from ParseToken_frame[OF p] have "reqPath c0 = reqPath c" by simp
  with assms p show ?thesis
    by (auto simp: GetClaimsFromJWT_def newMap_def Header_def Let_def
             split: sum.splits option.splits prod.splits if_splits jvalue.splits)
qed

lemma publishAndAuthorize_exempt:
  assumes "IdentityHandler mw = Some ih" and "Authorizator mw = Some az"
    and "ih (Set ''JWT_PAYLOAD'' (VClaims cl) c) = Inr (identity, c2)"
  shows "publishAndAuthorize mw True cl c =
     Inr (Next (if identity \<noteq> VNil then Set (IdentityKey mw) identity c2 else c2))"
  using assms by (simp add: publishAndAuthorize_def Let_def)

lemma middlewareImpl_verified:
  assumes "GetClaimsFromJWT E mw c = Inr ((Some r, None), c1)"
  shows "middlewareImpl E mw c = checkExpPresent mw (exempt mw c) (Some r) c1"
  using assms GetClaimsFromJWT_reqPath[OF assms]
  by (simp add: middlewareImpl_def Let_def)

text \<open>
  Claim C3, as the code has it. On an exempt path, for a presented credential that
  verifies: an \<open>exp\<close> of type \<open>float64\<close> before the current second is rejected with
  401 and \<open>ErrExpiredToken\<close>; a missing \<open>exp\<close> is let through to the publishing of
  the claims; and there the request is handed to the next handler whatever the
  \<open>Authorizator\<close> answers.
\<close>

theorem middlewareImpl_exempt_presented_credential:
  assumes got: "GetClaimsFromJWT E mw c = Inr ((Some r, None), c1)"
    and ex: "exempt mw c"
    and tf: "TimeFunc mw = Some tf"
  shows "(\<forall>f. heap c1 r ''exp'' = Some (VFloat f) \<and> int64 f < Unix (tf (ticks c1)) \<longrightarrow>
            middlewareImpl E mw c =
              unauthorizedErr mw (c1\<lparr>ticks := Suc (ticks c1)\<rparr>) 401 ErrExpiredToken) \<and>
         (heap c1 r ''exp'' = None \<or> heap c1 r ''exp'' = Some VNil \<longrightarrow>
            middlewareImpl E mw c = publishAndAuthorize mw True (Some r) c1) \<and>
         (\<forall>f. heap c1 r ''exp'' = Some (VFloat f) \<and> Unix (tf (ticks c1)) \<le> int64 f \<longrightarrow>
            middlewareImpl E mw c =
              publishAndAuthorize mw True (Some r) (c1\<lparr>ticks := Suc (ticks c1)\<rparr>)) \<and>
         (\<forall>ih az cl c' identity c2.
            IdentityHandler mw = Some ih \<and> Authorizator mw = Some az \<and>
            ih (Set ''JWT_PAYLOAD'' (VClaims cl) c') = Inr (identity, c2) \<longrightarrow>
            publishAndAuthorize mw True cl c' =
              Inr (Next (if identity \<noteq> VNil then Set (IdentityKey mw) identity c2 else c2)))"
proof (intro conjI allI impI)
  note impl = middlewareImpl_verified[OF got]
  { fix f assume "heap c1 r ''exp'' = Some (VFloat f) \<and> int64 f < Unix (tf (ticks c1))"
    then show "middlewareImpl E mw c =
              unauthorizedErr mw (c1\<lparr>ticks := Suc (ticks c1)\<rparr>) 401 ErrExpiredToken"
      using ex tf
      by (simp add: impl checkExpPresent_def checkExpFormat_def checkExpired_def mapGet_def
            callTimeFunc_def) }
  { assume "heap c1 r ''exp'' = None \<or> heap c1 r ''exp'' = Some VNil"
    then show "middlewareImpl E mw c = publishAndAuthorize mw True (Some r) c1"
      using ex
      by (auto simp: impl checkExpPresent_def checkExpFormat_def checkExpired_def mapGet_def) }
  { fix f assume "heap c1 r ''exp'' = Some (VFloat f) \<and> Unix (tf (ticks c1)) \<le> int64 f"
    then show "middlewareImpl E mw c =
              publishAndAuthorize mw True (Some r) (c1\<lparr>ticks := Suc (ticks c1)\<rparr>)"
      using ex tf
      by (simp add: impl checkExpPresent_def checkExpFormat_def checkExpired_def mapGet_def
            callTimeFunc_def) }
  fix ih az cl c' identity c2
  assume "IdentityHandler mw = Some ih \<and> Authorizator mw = Some az \<and>
            ih (Set ''JWT_PAYLOAD'' (VClaims cl) c') = Inr (identity, c2)"
  then have "IdentityHandler mw = Some ih" and "Authorizator mw = Some az"
    and "ih (Set ''JWT_PAYLOAD'' (VClaims cl) c') = Inr (identity, c2)" by blast+
  then show "publishAndAuthorize mw True cl c' =
              Inr (Next (if identity \<noteq> VNil then Set (IdentityKey mw) identity c2 else c2))"
    by (rule publishAndAuthorize_exempt)
qed


lemma defaultIdentityHandler_published:
  "defaultIdentityHandler k (Set ''JWT_PAYLOAD'' (VClaims cl) c) =
     Inr (mapGet c cl k, Set ''JWT_PAYLOAD'' (VClaims cl) c)"
  by (simp add: defaultIdentityHandler_def ExtractClaims_def Set_def mapGet_def
      split: option.splits)

lemma publishAndAuthorize_default_exempt:
  assumes "IdentityHandler mw = Some (defaultIdentityHandler k)" and "Authorizator mw = Some az"
  shows "publishAndAuthorize mw True cl c =
     Inr (Next (if mapGet c cl k \<noteq> VNil
                then Set (IdentityKey mw) (mapGet c cl k) (Set ''JWT_PAYLOAD'' (VClaims cl) c)
                else Set ''JWT_PAYLOAD'' (VClaims cl) c))"
  using publishAndAuthorize_exempt[OF assms defaultIdentityHandler_published] .

lemma admitted_projections:
  "nexts (Next (if b then Set k v (Set k' v' c) else Set k' v' c)) = Suc (nexts c)"
  "aborted (Next (if b then Set k v (Set k' v' c) else Set k' v' c)) = aborted c"
  "written (Next (if b then Set k v (Set k' v' c) else Set k' v' c)) = written c"
  by (simp_all add: Next_def Set_def)

lemma GetClaimsFromJWT_exMw_noexp:
  "GetClaimsFromJWT exEnv exMw (withAuthorization ''Bearer noexp'' exRequest) =
     Inr ((Some 1, None),
          withAuthorization ''Bearer noexp'' exRequest
            \<lparr>Keys := [''JWT_TOKEN'' \<mapsto> VString ''noexp''],
             heap := (\<lambda>r. Map.empty)
               (0 := [''orig_iat'' \<mapsto> VFloat 1000, ''identity'' \<mapsto> VString ''alice''],
                1 := [''orig_iat'' \<mapsto> VFloat 1000, ''identity'' \<mapsto> VString ''alice'']),
             hp := 2\<rparr>)"
  by (simp add: GetClaimsFromJWT_def exMw_eq eval_parse)

lemma GetClaimsFromJWT_exMwDeny_good:
  "GetClaimsFromJWT exEnv exMwDeny (withAuthorization ''Bearer good'' exRequest) =
     Inr ((Some 1, None),
          withAuthorization ''Bearer good'' exRequest
            \<lparr>Keys := [''JWT_TOKEN'' \<mapsto> VString ''good''],
             heap := (\<lambda>r. Map.empty)(0 := exClaims, 1 := exClaims), hp := 2\<rparr>)"
  by (simp add: GetClaimsFromJWT_def exMwDeny_def exMw_eq eval_parse)

lemma GetClaimsFromJWT_exMwLate_good:
  "GetClaimsFromJWT exEnv exMwLate (withAuthorization ''Bearer good'' exRequest) =
     Inr ((Some 1, None),
          withAuthorization ''Bearer good'' exRequest
            \<lparr>Keys := [''JWT_TOKEN'' \<mapsto> VString ''good''],
             heap := (\<lambda>r. Map.empty)(0 := exClaims, 1 := exClaims), hp := 2\<rparr>)"
  by (simp add: GetClaimsFromJWT_def exMwLate_def exMw_eq eval_parse)

lemma exempt_withAuthorization:
  "exempt exMw (withAuthorization v exRequest)"
  "exempt exMwDeny (withAuthorization v exRequest)"
  "exempt exMwLate (withAuthorization v exRequest)"
  using exempt_exRequest
  by (simp_all add: exMwDeny_def exMwLate_def withAuthorization_def)

theorem middlewareImpl_exempt_presented_credential_witness:
  "map_sum id written (middlewareImpl exEnv exMwLate (withAuthorization ''Bearer good'' exRequest)) =
     Inr [(401, [(''code'', VInt 401), (''message'', VString ''token is expired'')])] \<and>
   map_sum id nexts (middlewareImpl exEnv exMw (withAuthorization ''Bearer noexp'' exRequest)) =
     Inr 1 \<and>
   map_sum id nexts (middlewareImpl exEnv exMwDeny (withAuthorization ''Bearer good'' exRequest)) =
     Inr 1"
proof -
  note T = middlewareImpl_exempt_presented_credential
  have tfL: "TimeFunc exMwLate = Some (\<lambda>n. 3000000000000)" by (simp add: exMwLate_def)
  have tf: "TimeFunc exMw = Some (timeNow exEnv)" by (simp add: exMw_eq)
  have tfD: "TimeFunc exMwDeny = Some (timeNow exEnv)" by (simp add: exMwDeny_def exMw_eq)
  have t0: "\<And>v. ticks (withAuthorization v exRequest) = 0"
    by (simp add: withAuthorization_def exRequest_def)
  have w0: "\<And>v. written (withAuthorization v exRequest) = []"
    by (simp add: withAuthorization_def exRequest_def)
  have n0: "\<And>v. nexts (withAuthorization v exRequest) = 0"
    by (simp add: withAuthorization_def exRequest_def)
  have now: "\<And>n. timeNow exEnv n = 1500000000000 + int n" by (simp add: exEnv_def)
  have a: "map_sum id written
      (middlewareImpl exEnv exMwLate (withAuthorization ''Bearer good'' exRequest)) =
     Inr [(401, [(''code'', VInt 401), (''message'', VString ''token is expired'')])]"
    using T[OF GetClaimsFromJWT_exMwLate_good exempt_withAuthorization(3) tfL, THEN conjunct1,
            rule_format, of 2000]
    by (simp add: exClaims_def int64_eval Unix_def unauthorizedErr_def unauthorized_def
          exMwLate_def exMw_eq JSON_def Abort_def Header_def Let_def w0)
  have idh: "IdentityHandler exMw = Some (defaultIdentityHandler ''identity'')"
    "Authorizator exMw = Some (\<lambda>data c. True)"
    "IdentityHandler exMwDeny = Some (defaultIdentityHandler ''identity'')"
    "Authorizator exMwDeny = Some (\<lambda>data c. False)"
    by (simp_all add: exMwDeny_def exMw_eq)
  have b: "map_sum id nexts
      (middlewareImpl exEnv exMw (withAuthorization ''Bearer noexp'' exRequest)) = Inr 1"
    using T[OF GetClaimsFromJWT_exMw_noexp exempt_withAuthorization(1) tf, THEN conjunct2,
            THEN conjunct1]
    by (simp add: publishAndAuthorize_default_exempt[OF idh(1,2)] admitted_projections n0)
  have c: "map_sum id nexts
      (middlewareImpl exEnv exMwDeny (withAuthorization ''Bearer good'' exRequest)) = Inr 1"
    using T[OF GetClaimsFromJWT_exMwDeny_good exempt_withAuthorization(2) tfD, THEN conjunct2,
            THEN conjunct2, THEN conjunct1, rule_format, of 2000]
    by (simp add: publishAndAuthorize_default_exempt[OF idh(3,4)] admitted_projections n0
          exClaims_def int64_eval Unix_def now t0)
  from a b c show ?thesis by simp
qed

text \<open>
  The claim as the specification states it fails: on the exempt path \<open>/douyin/test\<close>
  a token that verifies and has no \<open>exp\<close> claim is admitted, and so is a verified
  token whose identity the \<open>Authorizator\<close> refuses.
\<close>

theorem middlewareImpl_exempt_missing_exp_counterexample:
  "exempt exMw (withAuthorization ''Bearer noexp'' exRequest) \<and>
   map_sum id fst (GetClaimsFromJWT exEnv exMw (withAuthorization ''Bearer noexp'' exRequest))
     = Inr (Some 1, None) \<and>
   map_sum id nexts (middlewareImpl exEnv exMw (withAuthorization ''Bearer noexp'' exRequest))
     = Inr 1 \<and>
   map_sum id aborted (middlewareImpl exEnv exMw (withAuthorization ''Bearer noexp'' exRequest))
     = Inr False \<and>
   map_sum id written (middlewareImpl exEnv exMw (withAuthorization ''Bearer noexp'' exRequest))
     = Inr [] \<and>
   map_sum id nexts (middlewareImpl exEnv exMwDeny (withAuthorization ''Bearer good'' exRequest))
     = Inr 1 \<and>
   map_sum id aborted (middlewareImpl exEnv exMwDeny (withAuthorization ''Bearer good'' exRequest))
     = Inr False"
proof -
  have idh: "IdentityHandler exMw = Some (defaultIdentityHandler ''identity'')"
    "Authorizator exMw = Some (\<lambda>data c. True)"
    "IdentityHandler exMwDeny = Some (defaultIdentityHandler ''identity'')"
    "Authorizator exMwDeny = Some (\<lambda>data c. False)"
    "TimeFunc exMwDeny = Some (timeNow exEnv)"
    by (simp_all add: exMwDeny_def exMw_eq)
  have r0: "\<And>v. nexts (withAuthorization v exRequest) = 0"
    "\<And>v. written (withAuthorization v exRequest) = []"
    "\<And>v. aborted (withAuthorization v exRequest) = False"
    "\<And>v. ticks (withAuthorization v exRequest) = 0"
    by (simp_all add: withAuthorization_def exRequest_def)
  have now: "\<And>n. timeNow exEnv n = 1500000000000 + int n" by (simp add: exEnv_def)
  have a: "middlewareImpl exEnv exMw (withAuthorization ''Bearer noexp'' exRequest) =
      publishAndAuthorize exMw True (Some 1)
        (withAuthorization ''Bearer noexp'' exRequest
            \<lparr>Keys := [''JWT_TOKEN'' \<mapsto> VString ''noexp''],
             heap := (\<lambda>r. Map.empty)
               (0 := [''orig_iat'' \<mapsto> VFloat 1000, ''identity'' \<mapsto> VString ''alice''],
                1 := [''orig_iat'' \<mapsto> VFloat 1000, ''identity'' \<mapsto> VString ''alice'']),
             hp := 2\<rparr>)"
    by (simp add: middlewareImpl_verified[OF GetClaimsFromJWT_exMw_noexp]
          exempt_withAuthorization checkExpPresent_def checkExpFormat_def checkExpired_def
          mapGet_def)
  have b: "middlewareImpl exEnv exMwDeny (withAuthorization ''Bearer good'' exRequest) =
      publishAndAuthorize exMwDeny True (Some 1)
        (withAuthorization ''Bearer good'' exRequest
            \<lparr>Keys := [''JWT_TOKEN'' \<mapsto> VString ''good''],
             heap := (\<lambda>r. Map.empty)(0 := exClaims, 1 := exClaims), hp := 2, ticks := 1\<rparr>)"
    by (simp add: middlewareImpl_verified[OF GetClaimsFromJWT_exMwDeny_good]
          exempt_withAuthorization checkExpPresent_def checkExpFormat_def checkExpired_def
          mapGet_def exClaims_def callTimeFunc_def idh(5) now int64_eval Unix_def r0)
  show ?thesis
    by (simp add: a b GetClaimsFromJWT_exMw_noexp exempt_withAuthorization
          publishAndAuthorize_default_exempt[OF idh(1,2)]
          publishAndAuthorize_default_exempt[OF idh(3,4)] admitted_projections r0)
qed


text \<open>
  On a path that is not exempt the same checks reject: a missing \<open>exp\<close> and an \<open>exp\<close>
  that is no \<open>float64\<close> with status 400.
\<close>

lemma middlewareImpl_enforced_presented_credential:
  assumes got: "GetClaimsFromJWT E mw c = Inr ((Some r, None), c1)"
    and ex: "\<not> exempt mw c"
  shows "(mapGet c1 (Some r) ''exp'' = VNil \<longrightarrow>
            middlewareImpl E mw c = unauthorizedErr mw c1 400 ErrMissingExpField) \<and>
         (mapGet c1 (Some r) ''exp'' \<noteq> VNil \<and> (\<forall>f. mapGet c1 (Some r) ''exp'' \<noteq> VFloat f) \<longrightarrow>
            middlewareImpl E mw c = unauthorizedErr mw c1 400 ErrWrongFormatOfExp)"
  using ex
  by (auto simp: middlewareImpl_verified[OF got] checkExpPresent_def checkExpFormat_def
           split: jvalue.splits)

text \<open>
  Claim C1, at a request the code rejects. The middleware is initialized from a
  configuration that sets the key only, so the token is looked up in the header
  \<open>Authorization\<close> and the exempt prefix is \<open>/douyin/test\<close>. A request to that path
  without any credential is answered with status 401 and aborted; the next handler
  does not run.
\<close>

theorem middlewareImpl_exempt_no_credential_rejected:
  "exempt exMw exRequest \<and>
   TokenLookup exMw = ''header:Authorization'' \<and>
   locate exMw exRequest = Inr ([], Some ErrEmptyAuthHeader) \<and>
   middlewareImpl exEnv exMw exRequest =
     Inr (JSON 401 [(''code'', VInt 401), (''message'', VString ''auth header is empty'')]
            (Abort (Header ''WWW-Authenticate'' ''JWT realm=gin jwt'' exRequest))) \<and>
   map_sum id aborted (middlewareImpl exEnv exMw exRequest) = Inr True \<and>
   map_sum id nexts (middlewareImpl exEnv exMw exRequest) = Inr 0"
proof -
  have a: "middlewareImpl exEnv exMw exRequest =
     Inr (JSON 401 [(''code'', VInt 401), (''message'', VString ''auth header is empty'')]
            (Abort (Header ''WWW-Authenticate'' ''JWT realm=gin jwt'' exRequest)))"
    by (simp add: middlewareImpl_error[OF ParseToken_locate_error[OF locate_exMw_empty]]
          unauthorizedErr_exMw)
  have b: "TokenLookup exMw = ''header:Authorization''" by (simp add: exMw_eq)
  have c: "map_sum id aborted (middlewareImpl exEnv exMw exRequest) = Inr True"
    by (simp add: a JSON_def Abort_def Header_def)
  have n0: "nexts exRequest = 0" by (simp add: exRequest_def)
  have d: "map_sum id nexts (middlewareImpl exEnv exMw exRequest) = Inr 0"
    by (simp add: a JSON_def Abort_def Header_def n0)
  show ?thesis
    by (intro conjI) (fact exempt_exRequest, fact b, fact locate_exMw_empty, fact a, fact c, fact d)
qed

text \<open>
  The sibling case that does what the claim says: with the form field as the last
  lookup source the same request is handed to the next handler, with the nil claim
  map published and no identity set.
\<close>

lemma middlewareImpl_exempt_empty_postform_admitted:
  "map_sum id nexts (middlewareImpl exEnv exMwForm exRequest) = Inr 1 \<and>
   map_sum id aborted (middlewareImpl exEnv exMwForm exRequest) = Inr False \<and>
   map_sum id Keys (middlewareImpl exEnv exMwForm exRequest) =
     Inr [''JWT_PAYLOAD'' \<mapsto> VClaims None]"
proof -
  have ex: "exempt exMwForm exRequest" using exempt_exRequest by (simp add: exMwForm_def)
  have idh: "IdentityHandler exMwForm = Some (defaultIdentityHandler ''identity'')"
    "Authorizator exMwForm = Some (\<lambda>data c. True)"
    by (simp_all add: exMwForm_def exMw_eq)
  have "middlewareImpl exEnv exMwForm exRequest = publishAndAuthorize exMwForm True None exRequest"
    using ex
    by (simp add: middlewareImpl_error[OF ParseToken_locate_error[OF locate_exMwForm_empty]])
  then show ?thesis
    by (simp add: publishAndAuthorize_default_exempt[OF idh] Next_def Set_def exRequest_def)
qed

text \<open>
  With the header as the only lookup source a malformed credential on the exempt
  path is rejected: a header without the head name, and a token the library cannot
  decode.
\<close>

lemma middlewareImpl_exempt_malformed_rejected:
  "map_sum id written (middlewareImpl exEnv exMw (withAuthorization ''good'' exRequest)) =
     Inr [(401, [(''code'', VInt 401), (''message'', VString ''auth header is invalid'')])] \<and>
   map_sum id written (middlewareImpl exEnv exMw (withAuthorization ''Bearer x.y'' exRequest)) =
     Inr [(401, [(''code'', VInt 401),
                 (''message'', VString ''token contains an invalid number of segments'')])]"
proof -
  have w0: "\<And>v. written (withAuthorization v exRequest) = []"
    by (simp add: withAuthorization_def exRequest_def)
  have l: "locate exMw (withAuthorization ''good'' exRequest) = Inr ([], Some ErrInvalidAuthHeader)"
    by (simp add: exMw_eq exRequest_def withAuthorization_def TrimSpace_def isSpace_def
          jwtFromHeader_def SplitN2_def Let_def)
  have p: "ParseToken exEnv exMw (withAuthorization ''Bearer x.y'' exRequest) =
      Inr ((None, Some (ValidationError None ''token contains an invalid number of segments''
                          ValidationErrorMalformed)),
           withAuthorization ''Bearer x.y'' exRequest)"
    by (simp add: exMw_eq eval_parse)
  show ?thesis
    by (simp add: middlewareImpl_error[OF ParseToken_locate_error[OF l]]
          middlewareImpl_error[OF p] unauthorizedErr_exMw_written w0)
qed

text \<open>
  With the form field as a later lookup source this does not hold: the error of
  the malformed header is replaced by that of the empty form field, and the request
  on the exempt path is handed to the next handler.
\<close>

lemma middlewareImpl_exempt_malformed_header_then_postform:
  "locate exMwForm (withAuthorization ''good'' exRequest) = Inr ([], Some ErrEmptyPostFormToken) \<and>
   map_sum id nexts (middlewareImpl exEnv exMwForm (withAuthorization ''good'' exRequest)) = Inr 1 \<and>
   map_sum id aborted (middlewareImpl exEnv exMwForm (withAuthorization ''good'' exRequest)) =
     Inr False"
proof -
  let ?c = "withAuthorization ''good'' exRequest"
  have l: "locate exMwForm ?c = Inr ([], Some ErrEmptyPostFormToken)"
    by (simp add: exMwForm_def exMw_eq exRequest_def withAuthorization_def TrimSpace_def
          isSpace_def jwtFrom_defs SplitN2_def Let_def)
  have ex: "exempt exMwForm ?c"
    using exempt_exRequest by (simp add: exMwForm_def withAuthorization_def)
  have idh: "IdentityHandler exMwForm = Some (defaultIdentityHandler ''identity'')"
    "Authorizator exMwForm = Some (\<lambda>data c. True)"
    by (simp_all add: exMwForm_def exMw_eq)
  have n0: "nexts ?c = 0" "aborted ?c = False"
    by (simp_all add: withAuthorization_def exRequest_def)
  have "middlewareImpl exEnv exMwForm ?c = publishAndAuthorize exMwForm True None ?c"
    using ex by (simp add: middlewareImpl_error[OF ParseToken_locate_error[OF l]])
  then have "map_sum id nexts (middlewareImpl exEnv exMwForm ?c) = Inr 1"
    "map_sum id aborted (middlewareImpl exEnv exMwForm ?c) = Inr False"
    by (simp_all add: publishAndAuthorize_default_exempt[OF idh] Next_def Set_def n0)
  with l show ?thesis by simp
qed

subsection \<open>The middleware and the message of the error\<close>

lemma jwt_Parse_error_message:
  assumes p: "jwt_Parse E s kf c = ((tok, Some e), c1)"
    and kfm: "\<And>t c' e' c''. kf t c' = (Inl e', c'') \<Longrightarrow>
                Error (wrapKeyFuncError e') \<noteq> ''form post token is empty''"
    and dec: "\<forall>s m. decodeSegments E s = Inl m \<longrightarrow> m \<noteq> ''form post token is empty''"
    and val: "\<forall>cl e. claimsValid E cl = Some e \<longrightarrow> Error e \<noteq> ''form post token is empty''"
    and ver: "\<forall>t k e. verify E t k = Some e \<longrightarrow> Error e \<noteq> ''form post token is empty''"
  shows "Error e \<noteq> ''form post token is empty''"
proof (cases "ParseUnverified E s c")
  case (Pair res c0)
  obtain t0 e0 where res: "res = (t0, e0)" by (cases res)
  show ?thesis
  proof (cases e0)
    case (Some e')
    with p Pair res have e: "e = e'" by (auto simp: jwt_Parse_def split: option.splits)
    from dec have d: "\<And>m. decodeSegments E s = Inl m \<Longrightarrow> m \<noteq> ''form post token is empty''"
      by blast
    from Pair res Some show ?thesis unfolding e
      by (auto simp: ParseUnverified_def newMap_def Let_def dest: d
               split: sum.splits prod.splits option.splits if_splits)
  next
    case None
    show ?thesis
    proof (cases t0)
      case None
      with p Pair res \<open>e0 = None\<close> show ?thesis by (auto simp: jwt_Parse_def split: option.splits)
    next
      case (Some t)
      note pu = Pair[unfolded res \<open>e0 = None\<close> Some]
      obtain r c2 where k: "kf t c0 = (r, c2)" by (cases "kf t c0")
      show ?thesis
      proof (cases r)
        case (Inl e')
        with p pu k have "e = wrapKeyFuncError e'" by (auto simp: jwt_Parse_def split: option.splits)
        with kfm[OF k[unfolded Inl]] show ?thesis by simp
      next
        case (Inr key)
        have ce: "Error (ValidationError (fst (claimsError E cl)) (fst (snd (claimsError E cl))) b)
                 \<noteq> ''form post token is empty''"
          if nz: "snd (snd (claimsError E cl)) \<noteq> 0" for cl b
        proof (cases "claimsValid E cl")
          case None
          with nz show ?thesis by (simp add: claimsError_def)
        next
          case (Some ev)
          with val have m: "Error ev \<noteq> ''form post token is empty''" by blast
          show ?thesis
          proof (cases "\<exists>i t b0. ev = ValidationError i t b0")
            case True
            then obtain i t b0 where ev: "ev = ValidationError i t b0" by blast
            have "Error (ValidationError i t b) = Error (ValidationError i t b0)"
              by (cases i) simp_all
            with m ev Some show ?thesis by (simp add: claimsError_def)
          next
            case False
            then have "claimsError E cl = (Some ev, [], ValidationErrorClaimsInvalid)"
              using Some by (cases ev) (simp_all add: claimsError_def)
            with m show ?thesis by simp
          qed
        qed
        show ?thesis
        proof (cases "verify E t key")
          case None
          with p pu k Inr ce[of "heap c2 (Claims t)"] show ?thesis
            by (auto simp: jwt_Parse_def Let_def split: prod.splits if_splits option.splits)
        next
          case (Some ev)
          with ver have "Error ev \<noteq> ''form post token is empty''" by blast
          with p pu k Inr Some show ?thesis
            by (auto simp: jwt_Parse_def Let_def split: prod.splits if_splits option.splits)
        qed
      qed
    qed
  qed
qed


lemma ParseToken_default_message:
  assumes loc: "locate mw c = Inr (t, None)"
    and p: "ParseToken E mw c = Inr ((tok, Some e), c1)"
    and kf: "KeyFunc mw = None"
    and dec: "\<forall>s m. decodeSegments E s = Inl m \<longrightarrow> m \<noteq> ''form post token is empty''"
    and val: "\<forall>cl e. claimsValid E cl = Some e \<longrightarrow> Error e \<noteq> ''form post token is empty''"
    and ver: "\<forall>t k e. verify E t k = Some e \<longrightarrow> Error e \<noteq> ''form post token is empty''"
  shows "Error e \<noteq> ''form post token is empty''"
proof -
  from p loc kf have jp: "jwt_Parse E t (defaultKeyFunc mw t) c = ((tok, Some e), c1)"
    by (simp add: ParseToken_def)
  show ?thesis
  proof (rule jwt_Parse_error_message[OF jp _ dec val ver])
    fix t' c' e' c''
    assume "defaultKeyFunc mw t t' c' = (Inl e', c'')"
    then have "e' = ErrInvalidSigningAlgorithm"
      by (auto simp: defaultKeyFunc_def split: if_splits)
    then show "Error (wrapKeyFuncError e') \<noteq> ''form post token is empty''"
      by (simp add: wrapKeyFuncError_def)
  qed
qed

text \<open>
  Claim C2, as the code has it. When locating the token fails, the error is one of
  the six locator errors. Every one of them but the empty-form-field error makes the
  middleware reject at once with status 401, whatever the path; the
  empty-form-field error alone makes it look at the exempt prefixes: an exempt path
  goes on (with the nil claim map), any other path is rejected with 401. The
  middleware tells the errors apart by their message. So an error of the
  verification is rejected with 401, whatever the path, when its message is not that
  of the empty-form-field error, and is treated as that error when it is. The
  second case needs an external key function: without one, and with a library none
  of whose own messages is that text, no error of the verification has it.
\<close>

theorem middlewareImpl_gate_on_postform_message:
  "(\<forall>t e. locate mw c = Inr (t, Some e) \<longrightarrow>
      e \<in> {ErrEmptyAuthHeader, ErrInvalidAuthHeader, ErrEmptyQueryToken, ErrEmptyCookieToken,
           ErrEmptyParamToken, ErrEmptyPostFormToken} \<and>
      (e \<noteq> ErrEmptyPostFormToken \<longrightarrow> middlewareImpl E mw c = unauthorizedErr mw c 401 e) \<and>
      (e = ErrEmptyPostFormToken \<longrightarrow>
         middlewareImpl E mw c =
           (if exempt mw c then publishAndAuthorize mw True None c
            else unauthorizedErr mw c 401 e))) \<and>
   (\<forall>t tok e c1. locate mw c = Inr (t, None) \<and> ParseToken E mw c = Inr ((tok, Some e), c1) \<longrightarrow>
      (Error e \<noteq> ''form post token is empty'' \<longrightarrow>
         middlewareImpl E mw c = unauthorizedErr mw c1 401 e) \<and>
      (Error e = ''form post token is empty'' \<longrightarrow>
         middlewareImpl E mw c =
           (if exempt mw c1 then publishAndAuthorize mw True None c1
            else unauthorizedErr mw c1 401 e))) \<and>
   (\<forall>t tok e c1. locate mw c = Inr (t, None) \<and> ParseToken E mw c = Inr ((tok, Some e), c1) \<and>
      KeyFunc mw = None \<and>
      (\<forall>s m. decodeSegments E s = Inl m \<longrightarrow> m \<noteq> ''form post token is empty'') \<and>
      (\<forall>cl e. claimsValid E cl = Some e \<longrightarrow> Error e \<noteq> ''form post token is empty'') \<and>
      (\<forall>t k e. verify E t k = Some e \<longrightarrow> Error e \<noteq> ''form post token is empty'') \<longrightarrow>
      Error e \<noteq> ''form post token is empty'' \<and>
      middlewareImpl E mw c = unauthorizedErr mw c1 401 e)"
proof (intro conjI allI impI)
  fix t e assume loc: "locate mw c = Inr (t, Some e)"
  show kinds: "e \<in> {ErrEmptyAuthHeader, ErrInvalidAuthHeader, ErrEmptyQueryToken,
      ErrEmptyCookieToken, ErrEmptyParamToken, ErrEmptyPostFormToken}"
    by (rule locate_error_kinds[OF loc])
  note impl = middlewareImpl_error[OF ParseToken_locate_error[OF loc], of E]
  { assume "e \<noteq> ErrEmptyPostFormToken"
    with kinds have "Error e \<noteq> ''form post token is empty''" by auto
    with impl show "middlewareImpl E mw c = unauthorizedErr mw c 401 e" by simp }
  { assume "e = ErrEmptyPostFormToken"
    with impl show "middlewareImpl E mw c =
           (if exempt mw c then publishAndAuthorize mw True None c
            else unauthorizedErr mw c 401 e)" by simp }
next
  fix t tok e c1
  assume h: "locate mw c = Inr (t, None) \<and> ParseToken E mw c = Inr ((tok, Some e), c1)"
  then have p: "ParseToken E mw c = Inr ((tok, Some e), c1)" by blast
  { assume "Error e \<noteq> ''form post token is empty''"
    then show "middlewareImpl E mw c = unauthorizedErr mw c1 401 e"
      by (simp add: middlewareImpl_error[OF p]) }
  { assume "Error e = ''form post token is empty''"
    then show "middlewareImpl E mw c =
           (if exempt mw c1 then publishAndAuthorize mw True None c1
            else unauthorizedErr mw c1 401 e)"
      by (simp add: middlewareImpl_error[OF p]) }
next
  fix t tok e c1
  assume h: "locate mw c = Inr (t, None) \<and> ParseToken E mw c = Inr ((tok, Some e), c1) \<and>
      KeyFunc mw = None \<and>
      (\<forall>s m. decodeSegments E s = Inl m \<longrightarrow> m \<noteq> ''form post token is empty'') \<and>
      (\<forall>cl e. claimsValid E cl = Some e \<longrightarrow> Error e \<noteq> ''form post token is empty'') \<and>
      (\<forall>t k e. verify E t k = Some e \<longrightarrow> Error e \<noteq> ''form post token is empty'')"
  then have loc: "locate mw c = Inr (t, None)"
    and p: "ParseToken E mw c = Inr ((tok, Some e), c1)"
    and kf: "KeyFunc mw = None"
    and dec: "\<forall>s m. decodeSegments E s = Inl m \<longrightarrow> m \<noteq> ''form post token is empty''"
    and val: "\<forall>cl e. claimsValid E cl = Some e \<longrightarrow> Error e \<noteq> ''form post token is empty''"
    and ver: "\<forall>t k e. verify E t k = Some e \<longrightarrow> Error e \<noteq> ''form post token is empty''"
    by blast+
  show m: "Error e \<noteq> ''form post token is empty''"
    by (rule ParseToken_default_message[OF loc p kf dec val ver])
  then show "middlewareImpl E mw c = unauthorizedErr mw c1 401 e"
    by (simp add: middlewareImpl_error[OF p])
qed


lemma exEnv_messages:
  "\<forall>s m. decodeSegments exEnv s = Inl m \<longrightarrow> m \<noteq> ''form post token is empty''"
  "\<forall>cl e. claimsValid exEnv cl = Some e \<longrightarrow> Error e \<noteq> ''form post token is empty''"
  "\<forall>t k e. verify exEnv t k = Some e \<longrightarrow> Error e \<noteq> ''form post token is empty''"
proof -
  show "\<forall>s m. decodeSegments exEnv s = Inl m \<longrightarrow> m \<noteq> ''form post token is empty''"
  proof (intro allI impI)
    fix s m assume "decodeSegments exEnv s = Inl m"
    then have "m = ''token contains an invalid number of segments''"
      by (simp add: exEnv_def split: if_splits)
    then show "m \<noteq> ''form post token is empty''" by simp
  qed
  show "\<forall>cl e. claimsValid exEnv cl = Some e \<longrightarrow> Error e \<noteq> ''form post token is empty''"
  proof (intro allI impI)
    fix cl e assume "claimsValid exEnv cl = Some e"
    then have "e = ValidationError None ''Token is expired'' ValidationErrorExpired"
      by (simp add: exEnv_def split: option.splits jvalue.splits if_splits)
    then show "Error e \<noteq> ''form post token is empty''" by simp
  qed
  show "\<forall>t k e. verify exEnv t k = Some e \<longrightarrow> Error e \<noteq> ''form post token is empty''"
  proof (intro allI impI)
    fix t k e assume "verify exEnv t k = Some e"
    then have "e = ErrorString ''signature is invalid''"
      by (simp add: exEnv_def split: if_splits)
    then show "Error e \<noteq> ''form post token is empty''" by simp
  qed
qed

lemma locate_exMwKeyFuncError_good:
  "locate exMwKeyFuncError (withAuthorization ''Bearer good'' exRequest) = Inr (''good'', None)"
  by (simp add: exMwKeyFuncError_def exMw_eq exRequest_def withAuthorization_def TrimSpace_def
        isSpace_def jwtFromHeader_def SplitN2_def Let_def)

lemma ParseToken_exMwKeyFuncError_good:
  "ParseToken exEnv exMwKeyFuncError (withAuthorization ''Bearer good'' exRequest) =
     Inr ((Some \<lparr>Raw = ''good'', Method = Some ''HS256'', Claims = 0, Valid = False\<rparr>,
           Some (ValidationError (Some (ErrorString ''form post token is empty'')) []
                   ValidationErrorUnverifiable)),
          withAuthorization ''Bearer good'' exRequest
            \<lparr>heap := (\<lambda>r. Map.empty)(0 := exClaims), hp := 1\<rparr>)"
  by (simp add: exMwKeyFuncError_def exMw_eq eval_parse)

lemma exempt_exMwKeyFuncError:
  "exempt exMwKeyFuncError
     (withAuthorization ''Bearer good'' exRequest\<lparr>heap := h, hp := n\<rparr>)"
  using exempt_exRequest by (simp add: exMwKeyFuncError_def withAuthorization_def)

theorem middlewareImpl_gate_on_postform_message_witness:
  "map_sum id written (middlewareImpl exEnv exMw exRequest) =
     Inr [(401, [(''code'', VInt 401), (''message'', VString ''auth header is empty'')])] \<and>
   middlewareImpl exEnv exMwForm exRequest = publishAndAuthorize exMwForm True None exRequest \<and>
   map_sum id written (middlewareImpl exEnv exMw (withAuthorization ''Bearer rs'' exRequest)) =
     Inr [(401, [(''code'', VInt 401), (''message'', VString ''invalid signing algorithm'')])] \<and>
   map_sum id nexts
     (middlewareImpl exEnv exMwKeyFuncError (withAuthorization ''Bearer good'' exRequest)) = Inr 1"
proof -
  note T = middlewareImpl_gate_on_postform_message
  have a: "middlewareImpl exEnv exMw exRequest = unauthorizedErr exMw exRequest 401 ErrEmptyAuthHeader"
    using T[of exMw exRequest exEnv, THEN conjunct1] locate_exMw_empty
    by simp
  have ex: "exempt exMwForm exRequest"
    using exempt_exRequest by (simp add: exMwForm_def)
  have b: "middlewareImpl exEnv exMwForm exRequest = publishAndAuthorize exMwForm True None exRequest"
    using T[of exMwForm exRequest exEnv, THEN conjunct1] locate_exMwForm_empty ex
    by simp
  have kf: "KeyFunc exMw = None" by (simp add: exMw_eq)
  have c: "middlewareImpl exEnv exMw (withAuthorization ''Bearer rs'' exRequest) =
      unauthorizedErr exMw
        (withAuthorization ''Bearer rs'' exRequest\<lparr>heap := (\<lambda>r. Map.empty)(0 := exClaims), hp := 1\<rparr>)
        401 (ValidationError (Some ErrInvalidSigningAlgorithm) [] ValidationErrorUnverifiable)"
    using T[of exMw "withAuthorization ''Bearer rs'' exRequest" exEnv, THEN conjunct2,
            THEN conjunct2, rule_format,
            of "''rs''" "Some \<lparr>Raw = ''rs'', Method = Some ''RS256'', Claims = 0, Valid = False\<rparr>"
               "ValidationError (Some ErrInvalidSigningAlgorithm) [] ValidationErrorUnverifiable"]
      locate_exMw_rs ParseToken_exMw_rs kf exEnv_messages
    by blast
  have idh: "IdentityHandler exMwKeyFuncError = Some (defaultIdentityHandler ''identity'')"
    "Authorizator exMwKeyFuncError = Some (\<lambda>data c. True)"
    by (simp_all add: exMwKeyFuncError_def exMw_eq)
  have "middlewareImpl exEnv exMwKeyFuncError (withAuthorization ''Bearer good'' exRequest) =
      publishAndAuthorize exMwKeyFuncError True None
        (withAuthorization ''Bearer good'' exRequest\<lparr>heap := (\<lambda>r. Map.empty)(0 := exClaims), hp := 1\<rparr>)"
    using T[of exMwKeyFuncError "withAuthorization ''Bearer good'' exRequest" exEnv,
            THEN conjunct2, THEN conjunct1, rule_format,
            OF conjI[OF locate_exMwKeyFuncError_good ParseToken_exMwKeyFuncError_good],
            THEN conjunct2]
      exempt_exMwKeyFuncError
    by simp
  then have d: "map_sum id nexts
     (middlewareImpl exEnv exMwKeyFuncError (withAuthorization ''Bearer good'' exRequest)) = Inr 1"
    by (simp add: publishAndAuthorize_default_exempt[OF idh] Next_def Set_def
          withAuthorization_def exRequest_def)
  show ?thesis
    by (simp add: a b c d unauthorizedErr_exMw_written)
       (simp add: exRequest_def withAuthorization_def)
qed

text \<open>
  The claim as the specification states it fails: with an external key function
  that returns an error of the message \<open>form post token is empty\<close>, a token is located,
  its verification fails, and the request to the exempt path is handed to the next
  handler and not rejected.
\<close>

theorem middlewareImpl_verification_failure_admitted_counterexample:
  "locate exMwKeyFuncError (withAuthorization ''Bearer good'' exRequest) = Inr (''good'', None) \<and>
   map_sum id (fst \<circ> fst)
     (ParseToken exEnv exMwKeyFuncError (withAuthorization ''Bearer good'' exRequest)) =
     Inr (Some \<lparr>Raw = ''good'', Method = Some ''HS256'', Claims = 0, Valid = False\<rparr>) \<and>
   map_sum id (snd \<circ> fst)
     (ParseToken exEnv exMwKeyFuncError (withAuthorization ''Bearer good'' exRequest)) =
     Inr (Some (ValidationError (Some (ErrorString ''form post token is empty'')) []
                  ValidationErrorUnverifiable)) \<and>
   exempt exMwKeyFuncError (withAuthorization ''Bearer good'' exRequest) \<and>
   map_sum id nexts
     (middlewareImpl exEnv exMwKeyFuncError (withAuthorization ''Bearer good'' exRequest)) = Inr 1 \<and>
   map_sum id aborted
     (middlewareImpl exEnv exMwKeyFuncError (withAuthorization ''Bearer good'' exRequest)) = Inr False \<and>
   map_sum id written
     (middlewareImpl exEnv exMwKeyFuncError (withAuthorization ''Bearer good'' exRequest)) = Inr []"
proof -
  have idh: "IdentityHandler exMwKeyFuncError = Some (defaultIdentityHandler ''identity'')"
    "Authorizator exMwKeyFuncError = Some (\<lambda>data c. True)"
    by (simp_all add: exMwKeyFuncError_def exMw_eq)
  have ex: "exempt exMwKeyFuncError (withAuthorization ''Bearer good'' exRequest)"
    using exempt_exRequest by (simp add: exMwKeyFuncError_def withAuthorization_def)
  have m: "middlewareImpl exEnv exMwKeyFuncError (withAuthorization ''Bearer good'' exRequest) =
      publishAndAuthorize exMwKeyFuncError True None
        (withAuthorization ''Bearer good'' exRequest\<lparr>heap := (\<lambda>r. Map.empty)(0 := exClaims), hp := 1\<rparr>)"
    using exempt_exMwKeyFuncError
    by (simp add: middlewareImpl_error[OF ParseToken_exMwKeyFuncError_good])
  have r0: "nexts (withAuthorization ''Bearer good'' exRequest) = 0"
    "aborted (withAuthorization ''Bearer good'' exRequest) = False"
    "written (withAuthorization ''Bearer good'' exRequest) = []"
    by (simp_all add: withAuthorization_def exRequest_def)
  show ?thesis
    by (simp add: m locate_exMwKeyFuncError_good ParseToken_exMwKeyFuncError_good ex
          publishAndAuthorize_default_exempt[OF idh] Next_def Set_def r0)
qed

end
